theory Spec2Isabelle
  imports Complex_Main
begin

section \<open>Python values handled by the humidifier\<close>

text \<open>
  The entity stores whatever the host's template renderer hands back, so its attributes are
  dynamically typed. A float is a finite value, a negative zero, an infinity (the flag says
  positive) or a NaN. Strings are lists of 8-bit characters read as code points below 256.
\<close>

datatype pyfloat = FRat rat | FNegZero | FInf bool | FNaN

datatype pyval =
    PNone
  | PBool bool
  | PInt int
  | PFloat pyfloat
  | PStr string
  | PList "pyval list"

datatype pyexc = TemplateError string | ValueError | TypeError | OverflowError

datatype pynum = NInt int | NFloat pyfloat

text \<open>\<open>bool(x)\<close>.\<close>

fun float_is_zero :: "pyfloat \<Rightarrow> bool" where
  "float_is_zero (FRat q) = (q = 0)"
| "float_is_zero FNegZero = True"
| "float_is_zero (FInf _) = False"
| "float_is_zero FNaN = False"

fun py_bool :: "pyval \<Rightarrow> bool" where
  "py_bool PNone = False"
| "py_bool (PBool b) = b"
| "py_bool (PInt i) = (i \<noteq> 0)"
| "py_bool (PFloat f) = (\<not> float_is_zero f)"
| "py_bool (PStr s) = (s \<noteq> [])"
| "py_bool (PList xs) = (xs \<noteq> [])"

text \<open>
  \<open>a == b\<close>. Booleans, integers and floats compare by numeric value (\<open>True == 1 == 1.0\<close>),
  a NaN equals nothing. The program only ever compares a rendered value with a boolean, an
  integer or a string literal; two lists are compared structurally.
\<close>

fun as_num :: "pyval \<Rightarrow> pynum option" where
  "as_num (PBool b) = Some (NInt (if b then 1 else 0))"
| "as_num (PInt i) = Some (NInt i)"
| "as_num (PFloat f) = Some (NFloat f)"
| "as_num PNone = None"
| "as_num (PStr _) = None"
| "as_num (PList _) = None"

fun float_eq_int :: "pyfloat \<Rightarrow> int \<Rightarrow> bool" where
  "float_eq_int (FRat q) i = (q = of_int i)"
| "float_eq_int FNegZero i = (i = 0)"
| "float_eq_int (FInf _) i = False"
| "float_eq_int FNaN i = False"

fun float_eq :: "pyfloat \<Rightarrow> pyfloat \<Rightarrow> bool" where
  "float_eq FNaN _ = False"
| "float_eq _ FNaN = False"
| "float_eq (FInf a) (FInf b) = (a = b)"
| "float_eq (FInf _) _ = False"
| "float_eq _ (FInf _) = False"
| "float_eq f g = ((float_is_zero f \<and> float_is_zero g) \<or> f = g)"

fun num_eq :: "pynum \<Rightarrow> pynum \<Rightarrow> bool" where
  "num_eq (NInt a) (NInt b) = (a = b)"
| "num_eq (NInt a) (NFloat f) = float_eq_int f a"
| "num_eq (NFloat f) (NInt b) = float_eq_int f b"
| "num_eq (NFloat f) (NFloat g) = float_eq f g"

definition py_eq :: "pyval \<Rightarrow> pyval \<Rightarrow> bool" where
  "py_eq a b =
     (case (as_num a, as_num b) of
        (Some x, Some y) \<Rightarrow> num_eq x y
      | (None, None) \<Rightarrow> a = b
      | _ \<Rightarrow> False)"

text \<open>\<open>x in (v1, ..., vn)\<close>: some member equals \<open>x\<close>.\<close>

definition py_in :: "pyval \<Rightarrow> pyval list \<Rightarrow> bool" where
  "py_in x vs = list_ex (py_eq x) vs"

text \<open>
  \<open>str.strip()\<close> removes leading and trailing whitespace; below 256 the whitespace code
  points are 9 to 13, 28 to 32, 133 and 160.
\<close>

definition py_isspace :: "char \<Rightarrow> bool" where
  "py_isspace c =
     (let n = (of_char c :: nat) in (9 \<le> n \<and> n \<le> 13) \<or> (28 \<le> n \<and> n \<le> 32) \<or> n = 133 \<or> n = 160)"

definition py_strip :: "string \<Rightarrow> string" where
  "py_strip s = rev (dropWhile py_isspace (rev (dropWhile py_isspace s)))"

section \<open>The humidifier entity\<close>

text \<open>
  A template object carries its source text and whether the host handle has been attached to
  it. A script object is built from the configured action sequence, the entity name and the
  humidifier domain.
\<close>

datatype template = Template (template_text: string) (template_hass: bool)

datatype script = Script (script_sequence: pyval) (script_name: "string option") (script_domain: string)

datatype feature = MODES

datatype device_class = HUMIDIFIER | DEHUMIDIFIER

text \<open>The validated configuration mapping; a key that is absent reads as \<open>None\<close>.\<close>

record config =
  cfg_name :: "string option"
  cfg_unique_id :: "string option"
  cfg_min_humidity :: "pyval option"
  cfg_max_humidity :: "pyval option"
  cfg_modes :: "pyval list option"
  cfg_target_humidity_template :: "template option"
  cfg_current_humidity_template :: "template option"
  cfg_state_template :: "template option"
  cfg_mode_template :: "template option"
  cfg_action_template :: "template option"
  cfg_set_target_humidity_action :: "pyval option"
  cfg_set_mode_action :: "pyval option"
  cfg_turn_on_action :: "pyval option"
  cfg_turn_off_action :: "pyval option"

record humidifier =
  attr_name :: "string option"
  attr_unique_id :: "string option"
  attr_min_humidity :: "pyval option"
  attr_max_humidity :: "pyval option"
  attr_available_modes :: "pyval list option"
  target_humidity_template :: "template option"
  current_humidity_template :: "template option"
  state_template :: "template option"
  mode_template :: "template option"
  action_template :: "template option"
  set_target_humidity_script :: "script option"
  set_mode_script :: "script option"
  turn_on_script :: "script option"
  turn_off_script :: "script option"
  attr_target_humidity :: pyval
  attr_current_humidity :: pyval
  attr_mode :: pyval
  attr_action :: pyval
  state :: bool
  attr_supported_features :: "feature set"
  attr_device_class :: device_class
  attr_should_poll :: bool
  ctx :: "string option"

text \<open>
  Modelled from the spec: the host constants \<open>DOMAIN\<close> of the humidifier component and
  \<open>STATE_ON\<close>, \<open>STATE_OFF\<close> of the host's constants module are imported by the source and not
  defined in it; the specification lists the strings \<open>on\<close> and \<open>off\<close> among the recognised
  state results.
\<close>

definition HUMIDIFIER_DOMAIN :: string where
  "HUMIDIFIER_DOMAIN = ''humidifier''"

definition STATE_ON :: string where
  "STATE_ON = ''on''"

definition STATE_OFF :: string where
  "STATE_OFF = ''off''"

text \<open>
  What the entity does to its host: log an error, render the template of one of the five
  template slots, run a script, write the entity state, subscribe to state changes, call the
  base class hook.
\<close>

datatype slot = StateT | TargetHumidityT | CurrentHumidityT | ModeT | ActionT

datatype event =
    LogError string pyexc
  | Render slot template
  | ScriptRun script "(string \<times> pyval) list option" "string option"
  | WriteHaState humidifier
  | TrackStateChange "string list"
  | SuperAddedToHass

text \<open>
  A method returns the exception that left it (if any), the entity as the method left it, and
  the host calls it made.
\<close>

type_synonym outcome = "pyexc option \<times> humidifier \<times> event list"

subsection \<open>Construction\<close>

definition make_script :: "string option \<Rightarrow> pyval option \<Rightarrow> script option" where
  "make_script nm action =
     (case action of None \<Rightarrow> None | Some sequence \<Rightarrow> Some (Script sequence nm HUMIDIFIER_DOMAIN))"

definition init :: "config \<Rightarrow> humidifier" where
  "init cfg =
     \<lparr> attr_name = cfg_name cfg,
       attr_unique_id = cfg_unique_id cfg,
       attr_min_humidity = cfg_min_humidity cfg,
       attr_max_humidity = cfg_max_humidity cfg,
       attr_available_modes = cfg_modes cfg,
       target_humidity_template = cfg_target_humidity_template cfg,
       current_humidity_template = cfg_current_humidity_template cfg,
       state_template = cfg_state_template cfg,
       mode_template = cfg_mode_template cfg,
       action_template = cfg_action_template cfg,
       set_target_humidity_script = make_script (cfg_name cfg) (cfg_set_target_humidity_action cfg),
       set_mode_script = make_script (cfg_name cfg) (cfg_set_mode_action cfg),
       turn_on_script = make_script (cfg_name cfg) (cfg_turn_on_action cfg),
       turn_off_script = make_script (cfg_name cfg) (cfg_turn_off_action cfg),
       attr_target_humidity = PNone,
       attr_current_humidity = PNone,
       attr_mode = PNone,
       attr_action = PNone,
       state = False,
       attr_supported_features =
         (case cfg_modes cfg of
            None \<Rightarrow> {}
          | Some ms \<Rightarrow> (if ms \<noteq> [] then {} \<union> {MODES} else {})),
       attr_device_class = HUMIDIFIER,
       attr_should_poll = False,
       ctx = None \<rparr>"

definition is_on :: "humidifier \<Rightarrow> bool" where
  "is_on s = state s"

subsection \<open>Control operations\<close>

definition async_write_ha_state :: "humidifier \<Rightarrow> event list" where
  "async_write_ha_state s = [WriteHaState s]"

definition async_set_humidity :: "pyval \<Rightarrow> humidifier \<Rightarrow> outcome" where
  "async_set_humidity humidity s =
     (case set_target_humidity_script s of
        Some sc \<Rightarrow> (None, s, [ScriptRun sc (Some [(''humidity'', humidity)]) (ctx s)])
      | None \<Rightarrow>
          (let s' = s\<lparr>attr_target_humidity := humidity\<rparr>
           in (None, s', async_write_ha_state s')))"

definition async_set_mode :: "pyval \<Rightarrow> humidifier \<Rightarrow> outcome" where
  "async_set_mode mode s =
     (case set_mode_script s of
        Some sc \<Rightarrow> (None, s, [ScriptRun sc (Some [(''mode'', mode)]) (ctx s)])
      | None \<Rightarrow>
          (let s' = s\<lparr>attr_mode := mode\<rparr>
           in (None, s', async_write_ha_state s')))"

definition async_turn_on :: "humidifier \<Rightarrow> outcome" where
  "async_turn_on s =
     (case turn_on_script s of
        Some sc \<Rightarrow> (None, s, [ScriptRun sc None (ctx s)])
      | None \<Rightarrow>
          (let s' = s\<lparr>state := True\<rparr>
           in (None, s', async_write_ha_state s')))"

definition async_turn_off :: "humidifier \<Rightarrow> outcome" where
  "async_turn_off s =
     (case turn_off_script s of
        Some sc \<Rightarrow> (None, s, [ScriptRun sc None (ctx s)])
      | None \<Rightarrow>
          (let s' = s\<lparr>state := False\<rparr>
           in (None, s', async_write_ha_state s')))"

section \<open>The host and the language runtime\<close>

text \<open>
  The template engine belongs to the host: rendering a template gives a value or raises a
  template error (with a message), and so does the analysis of the entities a template refers
  to. The numeric details of \<open>float()\<close> (parsing a string, rounding an integer) and the
  text form of values that are not strings belong to the language runtime. All of them are
  parameters of the model.
\<close>

record env =
  render :: "template \<Rightarrow> string + pyval"
  render_to_info :: "template \<Rightarrow> string + string list"
  float_from_str :: "string \<Rightarrow> pyfloat option"
  float_from_int :: "int \<Rightarrow> pyfloat option"
  repr :: "pyval \<Rightarrow> string"

text \<open>
  \<open>float(x)\<close>: a string that is not a number raises ValueError, an integer too large for a
  float raises OverflowError, \<open>None\<close> and containers raise TypeError.
\<close>

fun py_float :: "env \<Rightarrow> pyval \<Rightarrow> pyexc + pyfloat" where
  "py_float e PNone = Inl TypeError"
| "py_float e (PBool b) = Inr (FRat (if b then 1 else 0))"
| "py_float e (PInt i) = (case float_from_int e i of None \<Rightarrow> Inl OverflowError | Some f \<Rightarrow> Inr f)"
| "py_float e (PFloat f) = Inr f"
| "py_float e (PStr s) = (case float_from_str e s of None \<Rightarrow> Inl ValueError | Some f \<Rightarrow> Inr f)"
| "py_float e (PList xs) = Inl TypeError"

text \<open>\<open>str(x)\<close> never raises.\<close>

fun py_str :: "env \<Rightarrow> pyval \<Rightarrow> string" where
  "py_str e (PStr s) = s"
| "py_str e PNone = ''None''"
| "py_str e (PBool b) = (if b then ''True'' else ''False'')"
| "py_str e v = repr e v"

section \<open>Recomputing the attributes from the templates\<close>

definition true_results :: "pyval list" where
  "true_results =
     [PBool True, PStr ''True'', PStr ''true'', PStr ''on'', PStr ''On'', PStr ''ON'',
      PStr STATE_ON, PInt 1, PStr ''1'']"

definition false_results :: "pyval list" where
  "false_results =
     [PBool False, PStr ''False'', PStr ''false'', PStr ''off'', PStr ''Off'', PStr ''OFF'',
      PStr STATE_OFF, PInt 0, PStr ''0'']"

definition state_of_result :: "pyval \<Rightarrow> bool" where
  "state_of_result result =
     (if py_in result true_results then True
      else if py_in result false_results then False
      else py_bool result)"

text \<open>The message each \<open>except\<close> clause logs.\<close>

fun log_format :: "slot \<Rightarrow> string" where
  "log_format StateT = ''Error rendering state template: %s''"
| "log_format TargetHumidityT = ''Error rendering target humidity template: %s''"
| "log_format CurrentHumidityT = ''Error rendering current humidity template: %s''"
| "log_format ModeT = ''Error rendering mode template: %s''"
| "log_format ActionT = ''Error rendering action template: %s''"

text \<open>
  The five \<open>try\<close> blocks of \<open>_update_state\<close>, in the order of the source. The state, mode and
  action blocks catch a template error; the two humidity blocks catch a template error or a
  ValueError, and any other exception of \<open>float()\<close> leaves the method.
\<close>

definition render_state :: "env \<Rightarrow> humidifier \<Rightarrow> outcome" where
  "render_state e s =
     (case state_template s of
        None \<Rightarrow> (None, s, [])
      | Some t \<Rightarrow>
          (case render e t of
             Inl msg \<Rightarrow>
               (None, s, [Render StateT t, LogError (log_format StateT) (TemplateError msg)])
           | Inr result \<Rightarrow>
               (None, s\<lparr>state := state_of_result result\<rparr>, [Render StateT t])))"

definition render_target_humidity :: "env \<Rightarrow> humidifier \<Rightarrow> outcome" where
  "render_target_humidity e s =
     (case target_humidity_template s of
        None \<Rightarrow> (None, s, [])
      | Some t \<Rightarrow>
          (case render e t of
             Inl msg \<Rightarrow>
               (None, s,
                [Render TargetHumidityT t,
                 LogError (log_format TargetHumidityT) (TemplateError msg)])
           | Inr result \<Rightarrow>
               (case py_float e result of
                  Inr f \<Rightarrow> (None, s\<lparr>attr_target_humidity := PFloat f\<rparr>, [Render TargetHumidityT t])
                | Inl ex \<Rightarrow>
                    (if ex = ValueError
                     then (None, s,
                           [Render TargetHumidityT t, LogError (log_format TargetHumidityT) ex])
                     else (Some ex, s, [Render TargetHumidityT t])))))"

definition render_current_humidity :: "env \<Rightarrow> humidifier \<Rightarrow> outcome" where
  "render_current_humidity e s =
     (case current_humidity_template s of
        None \<Rightarrow> (None, s, [])
      | Some t \<Rightarrow>
          (case render e t of
             Inl msg \<Rightarrow>
               (None, s,
                [Render CurrentHumidityT t,
                 LogError (log_format CurrentHumidityT) (TemplateError msg)])
           | Inr result \<Rightarrow>
               (case py_float e result of
                  Inr f \<Rightarrow> (None, s\<lparr>attr_current_humidity := PFloat f\<rparr>, [Render CurrentHumidityT t])
                | Inl ex \<Rightarrow>
                    (if ex = ValueError
                     then (None, s,
                           [Render CurrentHumidityT t, LogError (log_format CurrentHumidityT) ex])
                     else (Some ex, s, [Render CurrentHumidityT t])))))"

definition render_mode :: "env \<Rightarrow> humidifier \<Rightarrow> outcome" where
  "render_mode e s =
     (case mode_template s of
        None \<Rightarrow> (None, s, [])
      | Some t \<Rightarrow>
          (case render e t of
             Inl msg \<Rightarrow>
               (None, s, [Render ModeT t, LogError (log_format ModeT) (TemplateError msg)])
           | Inr result \<Rightarrow>
               (None, s\<lparr>attr_mode := PStr (py_strip (py_str e result))\<rparr>, [Render ModeT t])))"

definition render_action :: "env \<Rightarrow> humidifier \<Rightarrow> outcome" where
  "render_action e s =
     (case action_template s of
        None \<Rightarrow> (None, s, [])
      | Some t \<Rightarrow>
          (case render e t of
             Inl msg \<Rightarrow>
               (None, s, [Render ActionT t, LogError (log_format ActionT) (TemplateError msg)])
           | Inr result \<Rightarrow>
               (None, s\<lparr>attr_action := PStr (py_str e result)\<rparr>, [Render ActionT t])))"

text \<open>Statements in sequence: an exception that leaves one skips the rest.\<close>

fun run_all :: "(humidifier \<Rightarrow> outcome) list \<Rightarrow> humidifier \<Rightarrow> outcome" where
  "run_all [] s = (None, s, [])"
| "run_all (f # fs) s =
     (case f s of
        (Some ex, s', tr) \<Rightarrow> (Some ex, s', tr)
      | (None, s', tr) \<Rightarrow> (case run_all fs s' of (r, s'', tr') \<Rightarrow> (r, s'', tr @ tr')))"

fun block :: "env \<Rightarrow> slot \<Rightarrow> humidifier \<Rightarrow> outcome" where
  "block e StateT = render_state e"
| "block e TargetHumidityT = render_target_humidity e"
| "block e CurrentHumidityT = render_current_humidity e"
| "block e ModeT = render_mode e"
| "block e ActionT = render_action e"

definition update_order :: "slot list" where
  "update_order = [StateT, TargetHumidityT, CurrentHumidityT, ModeT, ActionT]"

definition update_state :: "env \<Rightarrow> humidifier \<Rightarrow> outcome" where
  "update_state e s = run_all (map (block e) update_order) s"

section \<open>Subscription\<close>

text \<open>
  \<open>_get_template_entities\<close> collects into a set and returns it as a list. The order in which a
  set is listed is not specified; the model lists each entity once, in some order.
\<close>

fun gather :: "env \<Rightarrow> template option list \<Rightarrow> string list \<Rightarrow> string list" where
  "gather e [] entities = entities"
| "gather e (None # ts) entities = gather e ts entities"
| "gather e (Some t # ts) entities =
     (case render_to_info e t of
        Inl msg \<Rightarrow> gather e ts entities
      | Inr info_entities \<Rightarrow> gather e ts (List.union info_entities entities))"

definition gathered_templates :: "humidifier \<Rightarrow> template option list" where
  "gathered_templates s =
     [target_humidity_template s, current_humidity_template s, state_template s,
      mode_template s, action_template s]"

definition get_template_entities :: "env \<Rightarrow> humidifier \<Rightarrow> string list" where
  "get_template_entities e s = gather e (gathered_templates s) []"

definition set_hass :: "template option \<Rightarrow> template option" where
  "set_hass tpl = (case tpl of None \<Rightarrow> None | Some t \<Rightarrow> Some (Template (template_text t) True))"

text \<open>The callback registered for state changes of the tracked entities.\<close>

definition async_update_state :: "env \<Rightarrow> humidifier \<Rightarrow> outcome" where
  "async_update_state e s =
     (case update_state e s of
        (Some ex, s', tr) \<Rightarrow> (Some ex, s', tr)
      | (None, s', tr) \<Rightarrow> (None, s', tr @ async_write_ha_state s'))"

definition attach_hass :: "humidifier \<Rightarrow> humidifier" where
  "attach_hass s =
     s\<lparr>target_humidity_template := set_hass (target_humidity_template s),
       current_humidity_template := set_hass (current_humidity_template s),
       state_template := set_hass (state_template s),
       mode_template := set_hass (mode_template s),
       action_template := set_hass (action_template s)\<rparr>"

definition async_added_to_hass :: "env \<Rightarrow> humidifier \<Rightarrow> outcome" where
  "async_added_to_hass e s =
     (let s1 = attach_hass s
      in (case update_state e s1 of
            (r, s2, tr) \<Rightarrow>
              (r, s2, [SuperAddedToHass, TrackStateChange (get_template_entities e s1)] @ tr)))"

section \<open>Vocabulary of the statements\<close>

text \<open>The template and the attribute of a slot, and the entity with one template removed.\<close>

fun template_of :: "slot \<Rightarrow> humidifier \<Rightarrow> template option" where
  "template_of StateT s = state_template s"
| "template_of TargetHumidityT s = target_humidity_template s"
| "template_of CurrentHumidityT s = current_humidity_template s"
| "template_of ModeT s = mode_template s"
| "template_of ActionT s = action_template s"

fun attr_of :: "slot \<Rightarrow> humidifier \<Rightarrow> pyval" where
  "attr_of StateT s = PBool (state s)"
| "attr_of TargetHumidityT s = attr_target_humidity s"
| "attr_of CurrentHumidityT s = attr_current_humidity s"
| "attr_of ModeT s = attr_mode s"
| "attr_of ActionT s = attr_action s"

fun without_template :: "slot \<Rightarrow> humidifier \<Rightarrow> humidifier" where
  "without_template StateT s = s\<lparr>state_template := None\<rparr>"
| "without_template TargetHumidityT s = s\<lparr>target_humidity_template := None\<rparr>"
| "without_template CurrentHumidityT s = s\<lparr>current_humidity_template := None\<rparr>"
| "without_template ModeT s = s\<lparr>mode_template := None\<rparr>"
| "without_template ActionT s = s\<lparr>action_template := None\<rparr>"

text \<open>The host calls made on behalf of a slot: its render and its error log line.\<close>

definition concerns :: "slot \<Rightarrow> event \<Rightarrow> bool" where
  "concerns x ev =
     (case ev of Render y t \<Rightarrow> y = x | LogError fmt ex \<Rightarrow> fmt = log_format x | _ \<Rightarrow> False)"

text \<open>Projections of an outcome.\<close>

definition raised :: "outcome \<Rightarrow> pyexc option" where
  "raised out = fst out"

definition entity :: "outcome \<Rightarrow> humidifier" where
  "entity out = fst (snd out)"

definition calls :: "outcome \<Rightarrow> event list" where
  "calls out = snd (snd out)"

text \<open>Sample configurations and hosts.\<close>

definition bare_config :: config where
  "bare_config =
     \<lparr> cfg_name = Some ''Template Humidifier'',
       cfg_unique_id = None,
       cfg_min_humidity = Some (PFloat (FRat 40)),
       cfg_max_humidity = Some (PFloat (FRat 70)),
       cfg_modes = Some [PStr ''normal'', PStr ''eco''],
       cfg_target_humidity_template = None,
       cfg_current_humidity_template = None,
       cfg_state_template = None,
       cfg_mode_template = None,
       cfg_action_template = None,
       cfg_set_target_humidity_action = None,
       cfg_set_mode_action = None,
       cfg_turn_on_action = None,
       cfg_turn_off_action = None \<rparr>"

definition scripted_config :: config where
  "scripted_config =
     bare_config\<lparr> cfg_set_target_humidity_action := Some (PList [PStr ''set_humidity'']),
                  cfg_set_mode_action := Some (PList [PStr ''set_mode'']),
                  cfg_turn_on_action := Some (PList [PStr ''turn_on'']),
                  cfg_turn_off_action := Some (PList [PStr ''turn_off'']) \<rparr>"

section \<open>A uniform reading of the five blocks\<close>

text \<open>
  Each block renders its template, converts the result and stores it. \<open>convert\<close> is the
  conversion a block applies, \<open>store\<close> the assignment it makes, and \<open>caught_failure\<close> the
  exception its \<open>except\<close> clause would catch and log.
\<close>

fun convert :: "env \<Rightarrow> slot \<Rightarrow> pyval \<Rightarrow> pyexc + pyval" where
  "convert e StateT v = Inr (PBool (state_of_result v))"
| "convert e TargetHumidityT v = (case py_float e v of Inl ex \<Rightarrow> Inl ex | Inr f \<Rightarrow> Inr (PFloat f))"
| "convert e CurrentHumidityT v = (case py_float e v of Inl ex \<Rightarrow> Inl ex | Inr f \<Rightarrow> Inr (PFloat f))"
| "convert e ModeT v = Inr (PStr (py_strip (py_str e v)))"
| "convert e ActionT v = Inr (PStr (py_str e v))"

fun store :: "slot \<Rightarrow> pyval \<Rightarrow> humidifier \<Rightarrow> humidifier" where
  "store StateT w s = s\<lparr>state := (w = PBool True)\<rparr>"
| "store TargetHumidityT w s = s\<lparr>attr_target_humidity := w\<rparr>"
| "store CurrentHumidityT w s = s\<lparr>attr_current_humidity := w\<rparr>"
| "store ModeT w s = s\<lparr>attr_mode := w\<rparr>"
| "store ActionT w s = s\<lparr>attr_action := w\<rparr>"

definition caught_failure :: "env \<Rightarrow> slot \<Rightarrow> humidifier \<Rightarrow> pyexc option" where
  "caught_failure e x s =
     (case template_of x s of
        None \<Rightarrow> None
      | Some t \<Rightarrow>
          (case render e t of
             Inl msg \<Rightarrow> Some (TemplateError msg)
           | Inr v \<Rightarrow>
               (case convert e x v of
                  Inl ex \<Rightarrow> (if ex = ValueError then Some ex else None)
                | Inr w \<Rightarrow> None)))"

text \<open>Every configured template renders, and the humidity results convert to a float.\<close>

definition succeeds :: "env \<Rightarrow> humidifier \<Rightarrow> slot \<Rightarrow> bool" where
  "succeeds e s y =
     (case template_of y s of
        None \<Rightarrow> True
      | Some t \<Rightarrow>
          (case render e t of
             Inl msg \<Rightarrow> False
           | Inr v \<Rightarrow>
               (if y = TargetHumidityT \<or> y = CurrentHumidityT
                then (case py_float e v of Inl ex \<Rightarrow> False | Inr f \<Rightarrow> True)
                else True)))"

definition render_calls :: "humidifier \<Rightarrow> slot list \<Rightarrow> event list" where
  "render_calls s ys =
     concat (map (\<lambda>y. case template_of y s of None \<Rightarrow> [] | Some t \<Rightarrow> [Render y t]) ys)"

text \<open>The operations of the entity, and the slot an operation writes optimistically.\<close>

datatype operation =
    UpdateState | StateChanged | AddedToHass
  | SetHumidity pyval | SetMode pyval | TurnOn | TurnOff

fun perform :: "env \<Rightarrow> operation \<Rightarrow> humidifier \<Rightarrow> outcome" where
  "perform e UpdateState s = update_state e s"
| "perform e StateChanged s = async_update_state e s"
| "perform e AddedToHass s = async_added_to_hass e s"
| "perform e (SetHumidity humidity) s = async_set_humidity humidity s"
| "perform e (SetMode mode) s = async_set_mode mode s"
| "perform e TurnOn s = async_turn_on s"
| "perform e TurnOff s = async_turn_off s"

fun optimistic_slot :: "operation \<Rightarrow> humidifier \<Rightarrow> slot option" where
  "optimistic_slot (SetHumidity humidity) s =
     (if set_target_humidity_script s = None then Some TargetHumidityT else None)"
| "optimistic_slot (SetMode mode) s = (if set_mode_script s = None then Some ModeT else None)"
| "optimistic_slot TurnOn s = (if turn_on_script s = None then Some StateT else None)"
| "optimistic_slot TurnOff s = (if turn_off_script s = None then Some StateT else None)"
| "optimistic_slot op s = None"

text \<open>A sample host and a configuration with all five templates.\<close>

definition sample_renders :: "(string \<times> (string + pyval)) list" where
  "sample_renders =
     [(''{{ states.switch.fan.state }}'', Inr (PStr ''on'')),
      (''{{ states.sensor.target.state }}'', Inr (PInt 45)),
      (''{{ states.sensor.room.state }}'', Inr (PStr ''51.5'')),
      (''{{ states.sensor.gone.state }}'', Inr (PStr ''unavailable'')),
      (''{{ states.select.mode.state }}'', Inr (PStr '' eco '')),
      (''{{ states.sensor.action.state }}'', Inr (PStr ''humidifying'')),
      (''{{ state_attr(climate.x, humidity) }}'', Inr PNone),
      (''{{ states.sensor.room.state | bad }}'', Inl ''no filter named bad'')]"

definition sample_references :: "(string \<times> (string + string list)) list" where
  "sample_references =
     [(''{{ states.switch.fan.state }}'', Inr [''switch.fan'']),
      (''{{ states.sensor.target.state }}'', Inr [''sensor.target'']),
      (''{{ states.sensor.room.state }}'', Inr [''sensor.room'']),
      (''{{ states.sensor.gone.state }}'', Inr [''sensor.gone'']),
      (''{{ states.select.mode.state }}'', Inr [''select.mode'']),
      (''{{ states.sensor.action.state }}'', Inr [''sensor.action'', ''sensor.room'']),
      (''{{ state_attr(climate.x, humidity) }}'', Inr [''climate.x'']),
      (''{{ states.sensor.room.state | bad }}'', Inl ''no filter named bad'')]"

definition sample_host :: env where
  "sample_host =
     \<lparr> render = (\<lambda>t. case map_of sample_renders (template_text t) of
                         Some r \<Rightarrow> r | None \<Rightarrow> Inl ''undefined''),
       render_to_info = (\<lambda>t. case map_of sample_references (template_text t) of
                                 Some r \<Rightarrow> r | None \<Rightarrow> Inl ''undefined''),
       float_from_str = (\<lambda>s. if s = ''51.5'' then Some (FRat (103 / 2)) else None),
       float_from_int = (\<lambda>i. Some (FRat (of_int i))),
       repr = (\<lambda>v. if v = PInt 45 then ''45'' else ''?'') \<rparr>"

definition templated_config :: config where
  "templated_config =
     bare_config\<lparr> cfg_state_template := Some (Template ''{{ states.switch.fan.state }}'' True),
                  cfg_target_humidity_template := Some (Template ''{{ states.sensor.target.state }}'' True),
                  cfg_current_humidity_template := Some (Template ''{{ states.sensor.room.state }}'' True),
                  cfg_mode_template := Some (Template ''{{ states.select.mode.state }}'' True),
                  cfg_action_template := Some (Template ''{{ states.sensor.action.state }}'' True) \<rparr>"

definition broken_state_config :: config where
  "broken_state_config =
     templated_config\<lparr> cfg_state_template :=
       Some (Template ''{{ states.sensor.room.state | bad }}'' True) \<rparr>"

definition gone_sensor_config :: config where
  "gone_sensor_config =
     templated_config\<lparr> cfg_current_humidity_template :=
       Some (Template ''{{ states.sensor.gone.state }}'' True) \<rparr>"

definition none_target_config :: config where
  "none_target_config =
     templated_config\<lparr> cfg_target_humidity_template :=
       Some (Template ''{{ state_attr(climate.x, humidity) }}'' True) \<rparr>"

definition broken_state_none_target_config :: config where
  "broken_state_none_target_config =
     none_target_config\<lparr> cfg_state_template :=
       Some (Template ''{{ states.sensor.room.state | bad }}'' True) \<rparr>"

text \<open>The entities a template slot contributes to the subscription.\<close>

definition referenced :: "env \<Rightarrow> template option \<Rightarrow> string set" where
  "referenced e tpl =
     (case tpl of
        None \<Rightarrow> {}
      | Some t \<Rightarrow> (case render_to_info e t of Inl msg \<Rightarrow> {} | Inr info_entities \<Rightarrow> set info_entities))"

section \<open>The configuration schema\<close>

text \<open>
  A schema maps keys, optional (with or without a default) or required, to validators. The
  validators are named, not interpreted, except \<open>Coerce(float)\<close>.
\<close>

datatype validator = CvString | CoerceFloat | CvTemplate | CvEnsureList | CvScriptSchema

datatype schema_key = Optional string "pyval option" | Required string

type_synonym schema = "(schema_key \<times> validator) list"

fun key_name :: "schema_key \<Rightarrow> string" where
  "key_name (Optional k d) = k"
| "key_name (Required k) = k"

fun key_default :: "schema_key \<Rightarrow> pyval option" where
  "key_default (Optional k d) = d"
| "key_default (Required k) = None"

fun is_optional :: "schema_key \<Rightarrow> bool" where
  "is_optional (Optional k d) = True"
| "is_optional (Required k) = False"

text \<open>
  Modelled from the spec: \<open>CONF_NAME\<close> and \<open>CONF_UNIQUE_ID\<close> are constants of the host that
  the source imports; the specification names the two fields name and unique id.
\<close>

definition CONF_NAME :: string where "CONF_NAME = ''name''"
definition CONF_UNIQUE_ID :: string where "CONF_UNIQUE_ID = ''unique_id''"
text \<open>The keys and defaults the source defines.\<close>

definition CONF_MIN_HUMIDITY :: string where "CONF_MIN_HUMIDITY = ''min_humidity''"
definition CONF_MAX_HUMIDITY :: string where "CONF_MAX_HUMIDITY = ''max_humidity''"
definition CONF_TARGET_HUMIDITY_TEMPLATE :: string where
  "CONF_TARGET_HUMIDITY_TEMPLATE = ''target_humidity_template''"
definition CONF_CURRENT_HUMIDITY_TEMPLATE :: string where
  "CONF_CURRENT_HUMIDITY_TEMPLATE = ''current_humidity_template''"
definition CONF_STATE_TEMPLATE :: string where "CONF_STATE_TEMPLATE = ''state_template''"
definition CONF_MODE_TEMPLATE :: string where "CONF_MODE_TEMPLATE = ''mode_template''"
definition CONF_ACTION_TEMPLATE :: string where "CONF_ACTION_TEMPLATE = ''action_template''"
definition CONF_MODES :: string where "CONF_MODES = ''modes''"
definition CONF_SET_TARGET_HUMIDITY_ACTION :: string where
  "CONF_SET_TARGET_HUMIDITY_ACTION = ''set_target_humidity_action''"
definition CONF_SET_MODE_ACTION :: string where "CONF_SET_MODE_ACTION = ''set_mode_action''"
definition CONF_TURN_ON_ACTION :: string where "CONF_TURN_ON_ACTION = ''turn_on_action''"
definition CONF_TURN_OFF_ACTION :: string where "CONF_TURN_OFF_ACTION = ''turn_off_action''"

definition DEFAULT_NAME :: string where "DEFAULT_NAME = ''Template Humidifier''"
definition DEFAULT_MIN_HUMIDITY :: int where "DEFAULT_MIN_HUMIDITY = 40"
definition DEFAULT_MAX_HUMIDITY :: int where "DEFAULT_MAX_HUMIDITY = 70"
definition DEFAULT_MODES :: "string list" where
  "DEFAULT_MODES =
     [''normal'', ''eco'', ''away'', ''boost'', ''comfort'', ''home'', ''sleep'', ''auto'', ''baby'']"

text \<open>The mapping handed to \<open>PLATFORM_SCHEMA.extend\<close>, entry by entry in source order.\<close>

definition schema_extension :: schema where
  "schema_extension =
     [(Optional CONF_NAME (Some (PStr DEFAULT_NAME)), CvString),
      (Optional CONF_UNIQUE_ID None, CvString),
      (Optional CONF_MIN_HUMIDITY (Some (PInt DEFAULT_MIN_HUMIDITY)), CoerceFloat),
      (Optional CONF_MAX_HUMIDITY (Some (PInt DEFAULT_MAX_HUMIDITY)), CoerceFloat),
      (Optional CONF_TARGET_HUMIDITY_TEMPLATE None, CvTemplate),
      (Optional CONF_CURRENT_HUMIDITY_TEMPLATE None, CvTemplate),
      (Optional CONF_STATE_TEMPLATE None, CvTemplate),
      (Optional CONF_MODE_TEMPLATE None, CvTemplate),
      (Optional CONF_ACTION_TEMPLATE None, CvTemplate),
      (Optional CONF_MODES (Some (PList (map PStr DEFAULT_MODES))), CvEnsureList),
      (Optional CONF_SET_TARGET_HUMIDITY_ACTION None, CvScriptSchema),
      (Optional CONF_SET_MODE_ACTION None, CvScriptSchema),
      (Optional CONF_TURN_ON_ACTION None, CvScriptSchema),
      (Optional CONF_TURN_OFF_ACTION None, CvScriptSchema)]"

definition schema_keys :: "schema \<Rightarrow> string list" where
  "schema_keys sch = map (\<lambda>entry. key_name (fst entry)) sch"

text \<open>
  Extending a schema replaces the entries of the base whose key the extension defines and
  adds the others. The base platform schema belongs to the host and is a parameter.
\<close>

definition extend :: "schema \<Rightarrow> schema \<Rightarrow> schema" where
  "extend base ext =
     filter (\<lambda>entry. key_name (fst entry) \<notin> set (schema_keys ext)) base @ ext"

definition PLATFORM_SCHEMA :: "schema \<Rightarrow> schema" where
  "PLATFORM_SCHEMA base = extend base schema_extension"

text \<open>
  Validation inserts the default of every optional key that the given mapping lacks, and
  passes each value, defaults included, through the validator of its key; \<open>Coerce(float)\<close>
  is \<open>float()\<close>.
\<close>

fun fill_defaults :: "schema \<Rightarrow> (string \<times> pyval) list \<Rightarrow> (string \<times> pyval) list" where
  "fill_defaults [] given = given"
| "fill_defaults ((k, v) # sch) given =
     (case (map_of given (key_name k), key_default k) of
        (None, Some d) \<Rightarrow> fill_defaults sch (given @ [(key_name k, d)])
      | _ \<Rightarrow> fill_defaults sch given)"

fun coerce_float :: "env \<Rightarrow> pyval \<Rightarrow> pyexc + pyval" where
  "coerce_float e v = (case py_float e v of Inl ex \<Rightarrow> Inl ex | Inr f \<Rightarrow> Inr (PFloat f))"

section \<open>Properties of the control operations\<close>

text \<open>
  C1. When the script of a control operation is not configured, the operation writes
  optimistically: \<open>async_set_humidity\<close> stores the given humidity as the target humidity,
  \<open>async_set_mode\<close> stores the given mode, \<open>async_turn_on\<close> sets the state on,
  \<open>async_turn_off\<close> sets it off; nothing else of the entity changes, and the one host call
  made is the write of the updated entity state.
\<close>

theorem optimistic_write_without_script:
  "(set_target_humidity_script s = None \<longrightarrow>
      async_set_humidity humidity s =
        (None, s\<lparr>attr_target_humidity := humidity\<rparr>, [WriteHaState (s\<lparr>attr_target_humidity := humidity\<rparr>)])) \<and>
   (set_mode_script s = None \<longrightarrow>
      async_set_mode mode s = (None, s\<lparr>attr_mode := mode\<rparr>, [WriteHaState (s\<lparr>attr_mode := mode\<rparr>)])) \<and>
   (turn_on_script s = None \<longrightarrow>
      async_turn_on s = (None, s\<lparr>state := True\<rparr>, [WriteHaState (s\<lparr>state := True\<rparr>)])) \<and>
   (turn_off_script s = None \<longrightarrow>
      async_turn_off s = (None, s\<lparr>state := False\<rparr>, [WriteHaState (s\<lparr>state := False\<rparr>)]))"
  by (simp add: async_set_humidity_def async_set_mode_def async_turn_on_def async_turn_off_def
      async_write_ha_state_def Let_def)

theorem optimistic_write_without_script_witness:
  "set_target_humidity_script (init bare_config) = None \<and>
   set_mode_script (init bare_config) = None \<and>
   turn_on_script (init bare_config) = None \<and>
   turn_off_script (init bare_config) = None \<and>
   attr_target_humidity (entity (async_set_humidity (PInt 55) (init bare_config))) = PInt 55 \<and>
   attr_mode (entity (async_set_mode (PStr ''eco'') (init bare_config))) = PStr ''eco'' \<and>
   is_on (entity (async_turn_on (init bare_config))) \<and>
   \<not> is_on (entity (async_turn_off (entity (async_turn_on (init bare_config))))) \<and>
   calls (async_turn_on (init bare_config)) = [WriteHaState ((init bare_config)\<lparr>state := True\<rparr>)]"
  using optimistic_write_without_script
    [of "init bare_config" "PInt 55" "PStr ''eco''"]
    optimistic_write_without_script
    [of "(init bare_config)\<lparr>state := True\<rparr>" "PInt 55" "PStr ''eco''"]
  by (simp add: init_def bare_config_def make_script_def entity_def calls_def is_on_def Let_def)

text \<open>
  C2. When the script of a control operation is configured, the operation runs that script
  (with the variables \<open>humidity\<close> or \<open>mode\<close> for the two setters, with none for turning on
  and off) and returns the entity as it was: no attribute is written and no state write is
  issued.
\<close>

theorem script_call_leaves_attributes:
  "(set_target_humidity_script s = Some sc \<longrightarrow>
      async_set_humidity humidity s =
        (None, s, [ScriptRun sc (Some [(''humidity'', humidity)]) (ctx s)])) \<and>
   (set_mode_script s = Some sc \<longrightarrow>
      async_set_mode mode s = (None, s, [ScriptRun sc (Some [(''mode'', mode)]) (ctx s)])) \<and>
   (turn_on_script s = Some sc \<longrightarrow> async_turn_on s = (None, s, [ScriptRun sc None (ctx s)])) \<and>
   (turn_off_script s = Some sc \<longrightarrow> async_turn_off s = (None, s, [ScriptRun sc None (ctx s)]))"
  by (simp add: async_set_humidity_def async_set_mode_def async_turn_on_def async_turn_off_def)

theorem script_call_leaves_attributes_witness:
  "set_target_humidity_script (init scripted_config) =
     Some (Script (PList [PStr ''set_humidity'']) (Some ''Template Humidifier'') ''humidifier'') \<and>
   async_set_humidity (PInt 55) (init scripted_config) =
     (None, init scripted_config,
      [ScriptRun (Script (PList [PStr ''set_humidity'']) (Some ''Template Humidifier'') ''humidifier'')
         (Some [(''humidity'', PInt 55)]) None]) \<and>
   attr_target_humidity (entity (async_set_humidity (PInt 55) (init scripted_config))) = PNone"
  using script_call_leaves_attributes
    [of "init scripted_config"
        "Script (PList [PStr ''set_humidity'']) (Some ''Template Humidifier'') ''humidifier''"
        "PInt 55" "PStr ''eco''"]
  by (simp add: init_def scripted_config_def bare_config_def make_script_def entity_def
      HUMIDIFIER_DOMAIN_def)

section \<open>Properties of construction\<close>

text \<open>
  C9. Right after construction the target humidity, the current humidity, the mode and the
  action are \<open>None\<close>, \<open>is_on\<close> is false, and the MODES feature is set exactly when the
  configured mode list is not empty.
\<close>

theorem fresh_entity:
  "attr_target_humidity (init cfg) = PNone \<and>
   attr_current_humidity (init cfg) = PNone \<and>
   attr_mode (init cfg) = PNone \<and>
   attr_action (init cfg) = PNone \<and>
   is_on (init cfg) = False \<and>
   (MODES \<in> attr_supported_features (init cfg) \<longleftrightarrow> (\<exists>ms. cfg_modes cfg = Some ms \<and> ms \<noteq> []))"
  by (simp add: init_def is_on_def split: option.splits)

theorem fresh_entity_witness:
  "attr_target_humidity (init bare_config) = PNone \<and>
   \<not> is_on (init bare_config) \<and>
   MODES \<in> attr_supported_features (init bare_config) \<and>
   MODES \<notin> attr_supported_features (init (bare_config\<lparr>cfg_modes := Some []\<rparr>))"
  using fresh_entity [of bare_config] fresh_entity [of "bare_config\<lparr>cfg_modes := Some []\<rparr>"]
  by (simp add: bare_config_def)

section \<open>Properties of the recompute\<close>

subsection \<open>The blocks one by one\<close>

lemmas block_defs = render_state_def render_target_humidity_def render_current_humidity_def
  render_mode_def render_action_def

lemma block_shape:
  "block e y s =
     (case template_of y s of
        None \<Rightarrow> (None, s, [])
      | Some t \<Rightarrow>
          (case render e t of
             Inl msg \<Rightarrow> (None, s, [Render y t, LogError (log_format y) (TemplateError msg)])
           | Inr v \<Rightarrow>
               (case convert e y v of
                  Inr w \<Rightarrow> (None, store y w s, [Render y t])
                | Inl ex \<Rightarrow>
                    (if ex = ValueError
                     then (None, s, [Render y t, LogError (log_format y) ex])
                     else (Some ex, s, [Render y t])))))"
  by (cases y) (simp_all add: block_defs split: option.splits sum.splits)

lemma log_format_inj: "(log_format x = log_format y) = (x = y)"
  by (cases x; cases y) simp_all

lemma template_of_store: "template_of x (store y w s) = template_of x s"
  by (cases x; cases y) simp_all

lemma template_of_without:
  "template_of y (without_template x s) = (if x = y then None else template_of y s)"
  by (cases x; cases y) simp_all

lemma without_store: "without_template x (store y w s) = store y w (without_template x s)"
  by (cases x; cases y) simp_all

lemma attr_of_store_other: "x \<noteq> y \<Longrightarrow> attr_of x (store y w s) = attr_of x s"
  by (cases x; cases y) simp_all

lemma attr_of_without: "attr_of y (without_template x s) = attr_of y s"
  by (cases x; cases y) simp_all

lemma block_templates: "template_of x (fst (snd (block e y s))) = template_of x s"
  by (simp add: block_shape template_of_store split: option.splits sum.splits)

lemma block_frame:
  "template_of x s = None \<Longrightarrow> attr_of x (fst (snd (block e y s))) = attr_of x s"
  by (cases "x = y") (auto simp: block_shape attr_of_store_other split: option.splits sum.splits)

lemma run_all_invariant:
  "(\<forall>f \<in> set fs. \<forall>u. P u \<longrightarrow> P (fst (snd (f u)))) \<Longrightarrow> P s \<Longrightarrow> P (fst (snd (run_all fs s)))"
proof (induction fs arbitrary: s)
  case Nil
  then show ?case by simp
next
  case (Cons f fs)
  have P1: "P (fst (snd (f s)))" using Cons.prems by simp
  have rest: "\<forall>g \<in> set fs. \<forall>u. P u \<longrightarrow> P (fst (snd (g u)))" using Cons.prems(1) by simp
  have IH: "P (fst (snd (run_all fs (fst (snd (f s))))))" by (rule Cons.IH[OF rest P1])
  show ?case using P1 IH by (auto split: prod.splits option.splits)
qed

lemma run_blocks_templates:
  "template_of x (fst (snd (run_all (map (block e) ys) s))) = template_of x s"
proof -
  let ?P = "\<lambda>u. template_of x u = template_of x s"
  have "\<forall>f \<in> set (map (block e) ys). \<forall>u. ?P u \<longrightarrow> ?P (fst (snd (f u)))"
    by (auto simp: block_templates)
  from run_all_invariant[where P = ?P, OF this] show ?thesis by simp
qed

lemma run_blocks_frame:
  assumes "template_of x s = None"
  shows "attr_of x (fst (snd (run_all (map (block e) ys) s))) = attr_of x s"
proof -
  let ?P = "\<lambda>u. template_of x u = None \<and> attr_of x u = attr_of x s"
  have "\<forall>f \<in> set (map (block e) ys). \<forall>u. ?P u \<longrightarrow> ?P (fst (snd (f u)))"
    by (auto simp: block_templates block_frame)
  from run_all_invariant[where P = ?P, OF this] assms show ?thesis by simp
qed

lemma caught_failure_block:
  "caught_failure e x (fst (snd (block e y s))) = caught_failure e x s"
  by (simp add: caught_failure_def block_templates)

lemma block_failed_sim:
  assumes "caught_failure e x s = Some ex"
  shows "block e y (without_template x s) =
           (fst (block e y s), without_template x (fst (snd (block e y s))),
            filter (\<lambda>ev. \<not> concerns x ev) (snd (snd (block e y s))))"
proof (cases "x = y")
  case True
  then show ?thesis using assms
    by (auto simp: block_shape caught_failure_def template_of_without concerns_def
        split: option.splits sum.splits if_splits)
next
  case False
  then show ?thesis
    by (auto simp: block_shape template_of_without without_store concerns_def log_format_inj
        split: option.splits sum.splits)
qed

lemma run_blocks_failed_sim:
  "caught_failure e x s = Some ex \<Longrightarrow>
     run_all (map (block e) ys) (without_template x s) =
       (fst (run_all (map (block e) ys) s),
        without_template x (fst (snd (run_all (map (block e) ys) s))),
        filter (\<lambda>ev. \<not> concerns x ev) (snd (snd (run_all (map (block e) ys) s))))"
proof (induction ys arbitrary: s)
  case Nil
  then show ?case by simp
next
  case (Cons y ys)
  obtain r1 s1 tr1 where b: "block e y s = (r1, s1, tr1)" by (cases "block e y s") auto
  have b0: "block e y (without_template x s) =
              (r1, without_template x s1, filter (\<lambda>ev. \<not> concerns x ev) tr1)"
    using block_failed_sim[OF Cons.prems, of y] b by simp
  show ?case
  proof (cases r1)
    case (Some exn)
    then show ?thesis using b b0 by simp
  next
    case None
    have "caught_failure e x s1 = Some ex"
      using caught_failure_block[of e x y s] b Cons.prems by simp
    from Cons.IH[OF this] show ?thesis using b b0 None
      by (simp split: prod.splits)
  qed
qed

lemma attr_of_store_same:
  "attr_of x (store x w s) = (if x = StateT then PBool (w = PBool True) else w)"
  by (cases x) simp_all

lemma succeeds_convert:
  assumes "succeeds e s y" and "template_of y s = Some t"
  shows "\<exists>v w. render e t = Inr v \<and> convert e y v = Inr w"
proof -
  from assms obtain v where v: "render e t = Inr v"
    by (cases "render e t") (simp_all add: succeeds_def)
  have "\<exists>w. convert e y v = Inr w"
    using assms v by (cases y; cases "py_float e v") (simp_all add: succeeds_def)
  with v show ?thesis by blast
qed

lemma succeeds_block:
  "succeeds e (fst (snd (block e y s))) x = succeeds e s x"
  by (simp add: succeeds_def block_templates)

lemma succeeds_block_fun:
  "succeeds e (fst (snd (block e y s))) = succeeds e s"
  by (rule ext) (rule succeeds_block)

lemma block_succeeds:
  assumes "succeeds e s y"
  shows "fst (block e y s) = None"
    and "snd (snd (block e y s)) = render_calls s [y]"
proof -
  show "fst (block e y s) = None"
  proof (cases "template_of y s")
    case None
    then show ?thesis by (simp add: block_shape)
  next
    case (Some t)
    from succeeds_convert[OF assms Some] obtain v w where "render e t = Inr v" "convert e y v = Inr w"
      by blast
    then show ?thesis using Some by (simp add: block_shape)
  qed
  show "snd (snd (block e y s)) = render_calls s [y]"
  proof (cases "template_of y s")
    case None
    then show ?thesis by (simp add: block_shape render_calls_def)
  next
    case (Some t)
    from succeeds_convert[OF assms Some] obtain v w where "render e t = Inr v" "convert e y v = Inr w"
      by blast
    then show ?thesis using Some by (simp add: block_shape render_calls_def)
  qed
qed

lemma render_calls_templates:
  "(\<forall>y. template_of y u = template_of y s) \<Longrightarrow> render_calls u ys = render_calls s ys"
  by (simp add: render_calls_def)

lemma run_blocks_succeed:
  "list_all (succeeds e s) ys \<Longrightarrow>
     fst (run_all (map (block e) ys) s) = None \<and>
     snd (snd (run_all (map (block e) ys) s)) = render_calls s ys"
proof (induction ys arbitrary: s)
  case Nil
  then show ?case by (simp add: render_calls_def)
next
  case (Cons y ys)
  obtain r1 s1 tr1 where b: "block e y s = (r1, s1, tr1)" by (cases "block e y s") auto
  have y: "succeeds e s y" using Cons.prems by simp
  have r1: "r1 = None" and tr1: "tr1 = render_calls s [y]"
    using block_succeeds[OF y] b by simp_all
  have s1: "s1 = fst (snd (block e y s))" using b by simp
  have "list_all (succeeds e s1) ys"
    using Cons.prems by (simp add: s1 succeeds_block_fun)
  from Cons.IH[OF this]
  have rest: "fst (run_all (map (block e) ys) s1) = None"
    "snd (snd (run_all (map (block e) ys) s1)) = render_calls s1 ys" by simp_all
  have "render_calls s1 ys = render_calls s ys"
    by (rule render_calls_templates) (simp add: s1 block_templates)
  then show ?case using b r1 tr1 rest
    by (cases "run_all (map (block e) ys) s1") (simp add: render_calls_def)
qed

lemma block_keeps_stored:
  assumes "template_of x u = Some t" and "render e t = Inr v" and "convert e x v = Inr w"
    and "attr_of x u = attr_of x (store x w u)"
  shows "attr_of x (fst (snd (block e y u))) = attr_of x (store x w u)"
proof (cases "x = y")
  case True
  then show ?thesis using assms by (simp add: block_shape attr_of_store_same)
next
  case False
  then show ?thesis using assms(4)
    by (simp add: block_shape attr_of_store_other split: option.splits sum.splits)
qed

lemma run_blocks_stored:
  "template_of x s = Some t \<Longrightarrow> render e t = Inr v \<Longrightarrow> convert e x v = Inr w \<Longrightarrow>
     x \<in> set ys \<or> attr_of x s = attr_of x (store x w s) \<Longrightarrow>
     fst (run_all (map (block e) ys) s) = None \<Longrightarrow>
     attr_of x (fst (snd (run_all (map (block e) ys) s))) = attr_of x (store x w s)"
proof (induction ys arbitrary: s)
  case Nil
  then show ?case by simp
next
  case (Cons y ys)
  obtain r1 s1 tr1 where b: "block e y s = (r1, s1, tr1)" by (cases "block e y s") auto
  have r1: "r1 = None" using Cons.prems(5) b by (cases r1) auto
  have s1: "s1 = fst (snd (block e y s))" using b by simp
  have t1: "template_of x s1 = Some t" using Cons.prems(1) by (simp add: s1 block_templates)
  have rest: "fst (run_all (map (block e) ys) s1) = None"
    using Cons.prems(5) b r1 by (simp split: prod.splits)
  have same: "attr_of x (store x w s1) = attr_of x (store x w s)"
    by (simp add: attr_of_store_same)
  have "x \<in> set ys \<or> attr_of x s1 = attr_of x (store x w s1)"
  proof (cases "x = y")
    case True
    then have "s1 = store x w s"
      using Cons.prems(1,2,3) b by (simp add: block_shape)
    then show ?thesis by (simp add: attr_of_store_same)
  next
    case False
    show ?thesis
    proof (cases "x \<in> set ys")
      case True
      then show ?thesis by simp
    next
      case False
      with \<open>x \<noteq> y\<close> Cons.prems(4) have a: "attr_of x s = attr_of x (store x w s)" by simp
      have "attr_of x s1 = attr_of x (store x w s)"
        using block_keeps_stored[OF Cons.prems(1,2,3) a, of y] by (simp add: s1)
      then show ?thesis using same by simp
    qed
  qed
  from Cons.IH[OF t1 Cons.prems(2,3) this rest]
  have "attr_of x (fst (snd (run_all (map (block e) ys) s1))) = attr_of x (store x w s1)" .
  then show ?case using b r1 same
    by (cases "run_all (map (block e) ys) s1") simp
qed

lemma state_of_result_literal:
  "state_of_result v =
     (if v \<in> set [PBool True, PStr ''True'', PStr ''true'', PStr ''on'', PStr ''On'', PStr ''ON'',
                   PInt 1, PStr ''1'']
      then True
      else if v \<in> set [PBool False, PStr ''False'', PStr ''false'', PStr ''off'', PStr ''Off'',
                        PStr ''OFF'', PInt 0, PStr ''0'']
      then False
      else py_bool v)"
proof (cases v)
  case (PFloat f)
  then show ?thesis
    by (cases f)
       (auto simp: state_of_result_def py_in_def py_eq_def true_results_def false_results_def)
next
  case (PStr s)
  then show ?thesis
    by (auto simp: state_of_result_def py_in_def py_eq_def true_results_def false_results_def
        STATE_ON_def STATE_OFF_def)
qed (auto simp: state_of_result_def py_in_def py_eq_def true_results_def false_results_def)

lemmas sample_defs = sample_host_def sample_renders_def sample_references_def templated_config_def
  bare_config_def init_def make_script_def

lemmas run_defs = update_state_def update_order_def render_state_def render_target_humidity_def
  render_current_humidity_def render_mode_def render_action_def state_of_result_def py_in_def
  py_eq_def true_results_def false_results_def STATE_ON_def STATE_OFF_def py_strip_def
  py_isspace_def

lemma update_state_proj:
  "raised (update_state e s) = fst (run_all (map (block e) update_order) s)"
  "entity (update_state e s) = fst (snd (run_all (map (block e) update_order) s))"
  "calls (update_state e s) = snd (snd (run_all (map (block e) update_order) s))"
  by (simp_all add: raised_def entity_def calls_def update_state_def)

lemma update_state_frame:
  "template_of x s = None \<Longrightarrow> attr_of x (entity (update_state e s)) = attr_of x s"
  by (simp add: update_state_proj run_blocks_frame)

lemma update_state_templates:
  "template_of x (entity (update_state e s)) = template_of x s"
  by (simp add: update_state_proj run_blocks_templates)

lemma attach_hass_frame:
  "attr_of x (attach_hass s) = attr_of x s"
  "template_of x s = None \<Longrightarrow> template_of x (attach_hass s) = None"
  by (cases x; simp add: attach_hass_def set_hass_def)+

lemma entity_async_update_state:
  "entity (async_update_state e s) = entity (update_state e s)"
  by (simp add: async_update_state_def entity_def split: prod.splits option.splits)

lemma entity_async_added_to_hass:
  "entity (async_added_to_hass e s) = entity (update_state e (attach_hass s))"
  by (simp add: async_added_to_hass_def entity_def Let_def split: prod.splits)

subsection \<open>Attributes without a template\<close>

text \<open>
  C8. A recompute leaves the attribute of every slot whose template is not configured as it
  was. The same holds for every operation of the entity except the optimistic fallback that
  writes that very attribute, and the template stays unconfigured, so only those fallbacks
  ever modify such an attribute.
\<close>

theorem unconfigured_attribute_frame:
  assumes "template_of x s = None"
  shows "attr_of x (entity (update_state e s)) = attr_of x s \<and>
         (optimistic_slot op s \<noteq> Some x \<longrightarrow>
            attr_of x (entity (perform e op s)) = attr_of x s \<and>
            template_of x (entity (perform e op s)) = None)"
proof -
  have upd: "attr_of x (entity (update_state e s)) = attr_of x s"
    by (rule update_state_frame[OF assms])
  have "attr_of x (entity (perform e op s)) = attr_of x s \<and>
        template_of x (entity (perform e op s)) = None"
    if o: "optimistic_slot op s \<noteq> Some x"
  proof (cases op)
    case UpdateState
    then show ?thesis using upd assms by (simp add: update_state_templates)
  next
    case StateChanged
    then show ?thesis using upd assms
      by (simp add: entity_async_update_state update_state_templates)
  next
    case AddedToHass
    have "template_of x (attach_hass s) = None" by (rule attach_hass_frame(2)[OF assms])
    then show ?thesis using AddedToHass
      by (simp add: entity_async_added_to_hass update_state_templates update_state_frame
          attach_hass_frame(1))
  next
    case (SetHumidity humidity)
    then show ?thesis using o assms
      by (cases x) (auto simp: async_set_humidity_def entity_def Let_def split: option.splits)
  next
    case (SetMode mode)
    then show ?thesis using o assms
      by (cases x) (auto simp: async_set_mode_def entity_def Let_def split: option.splits)
  next
    case TurnOn
    then show ?thesis using o assms
      by (cases x) (auto simp: async_turn_on_def entity_def Let_def split: option.splits)
  next
    case TurnOff
    then show ?thesis using o assms
      by (cases x) (auto simp: async_turn_off_def entity_def Let_def split: option.splits)
  qed
  with upd show ?thesis by blast
qed

theorem unconfigured_attribute_frame_witness:
  "template_of ModeT (init (templated_config\<lparr>cfg_mode_template := None\<rparr>)) = None \<and>
   optimistic_slot StateChanged (init (templated_config\<lparr>cfg_mode_template := None\<rparr>)) \<noteq> Some ModeT \<and>
   attr_of ModeT (entity (update_state sample_host (init (templated_config\<lparr>cfg_mode_template := None\<rparr>)))) = PNone \<and>
   attr_of ModeT (entity (perform sample_host StateChanged (init (templated_config\<lparr>cfg_mode_template := None\<rparr>)))) = PNone \<and>
   attr_of TargetHumidityT (entity (update_state sample_host (init (templated_config\<lparr>cfg_mode_template := None\<rparr>)))) = PFloat (FRat 45)"
proof -
  let ?s = "init (templated_config\<lparr>cfg_mode_template := None\<rparr>)"
  have h: "template_of ModeT ?s = None" by (simp add: sample_defs)
  have o: "optimistic_slot StateChanged ?s \<noteq> Some ModeT" by simp
  have a: "attr_of ModeT ?s = PNone" by (simp add: sample_defs)
  have t: "attr_of TargetHumidityT (entity (update_state sample_host ?s)) = PFloat (FRat 45)"
    by (simp add: sample_defs run_defs entity_def)
  from unconfigured_attribute_frame[OF h, of sample_host StateChanged] h o a t
  show ?thesis by simp
qed


subsection \<open>What a recompute logs, renders and raises\<close>

lemma run_all_Cons_proj:
  "fst (run_all (f # fs) s) =
     (case fst (f s) of Some ex \<Rightarrow> Some ex | None \<Rightarrow> fst (run_all fs (fst (snd (f s)))))"
  "fst (snd (run_all (f # fs) s)) =
     (case fst (f s) of Some ex \<Rightarrow> fst (snd (f s))
      | None \<Rightarrow> fst (snd (run_all fs (fst (snd (f s))))))"
  "snd (snd (run_all (f # fs) s)) =
     (case fst (f s) of Some ex \<Rightarrow> snd (snd (f s))
      | None \<Rightarrow> snd (snd (f s)) @ snd (snd (run_all fs (fst (snd (f s))))))"
  by (auto split: prod.splits option.splits)

lemma block_renders:
  "template_of y s = Some t \<Longrightarrow> Render y t \<in> set (snd (snd (block e y s)))"
  by (simp add: block_shape split: sum.splits)

lemma block_logged:
  "LogError fmt ex \<in> set (snd (snd (block e y s))) \<Longrightarrow>
     fmt = log_format y \<and> caught_failure e y s = Some ex"
  by (auto simp: block_shape caught_failure_def split: option.splits sum.splits if_splits)

lemma block_logs_failure:
  "caught_failure e x s = Some ex \<Longrightarrow> Render x t \<in> set (snd (snd (block e y s))) \<Longrightarrow>
     LogError (log_format x) ex \<in> set (snd (snd (block e y s)))"
  by (auto simp: block_shape caught_failure_def split: option.splits sum.splits if_splits)

lemma run_blocks_reached:
  "template_of x s = Some t \<Longrightarrow> x \<in> set ys \<Longrightarrow> fst (run_all (map (block e) ys) s) = None \<Longrightarrow>
     Render x t \<in> set (snd (snd (run_all (map (block e) ys) s)))"
proof (induction ys arbitrary: s)
  case Nil
  then show ?case by simp
next
  case (Cons y ys)
  have r1: "fst (block e y s) = None"
    using Cons.prems(3) by (cases "fst (block e y s)") (simp_all add: run_all_Cons_proj del: run_all.simps)
  have rest: "fst (run_all (map (block e) ys) (fst (snd (block e y s)))) = None"
    using Cons.prems(3) r1 by (simp add: run_all_Cons_proj del: run_all.simps)
  show ?case
  proof (cases "x = y")
    case True
    then show ?thesis using block_renders[OF Cons.prems(1), of e] r1
      by (simp add: run_all_Cons_proj del: run_all.simps)
  next
    case False
    then have "x \<in> set ys" using Cons.prems(2) by simp
    moreover have "template_of x (fst (snd (block e y s))) = Some t"
      using Cons.prems(1) by (simp add: block_templates)
    ultimately have "Render x t \<in> set (snd (snd (run_all (map (block e) ys) (fst (snd (block e y s))))))"
      using Cons.IH rest by blast
    then show ?thesis using r1 by (simp add: run_all_Cons_proj del: run_all.simps)
  qed
qed

lemma run_blocks_logged:
  "LogError fmt ex \<in> set (snd (snd (run_all (map (block e) ys) s))) \<Longrightarrow>
     \<exists>y \<in> set ys. fmt = log_format y \<and> caught_failure e y s = Some ex"
proof (induction ys arbitrary: s)
  case Nil
  then show ?case by simp
next
  case (Cons y ys)
  let ?s1 = "fst (snd (block e y s))"
  from Cons.prems have
    "LogError fmt ex \<in> set (snd (snd (block e y s))) \<or>
     LogError fmt ex \<in> set (snd (snd (run_all (map (block e) ys) ?s1)))"
    by (auto simp: run_all_Cons_proj simp del: run_all.simps split: option.splits)
  then show ?case
  proof
    assume "LogError fmt ex \<in> set (snd (snd (block e y s)))"
    from block_logged[OF this] show ?thesis by simp
  next
    assume "LogError fmt ex \<in> set (snd (snd (run_all (map (block e) ys) ?s1)))"
    from Cons.IH[OF this] obtain z where "z \<in> set ys" "fmt = log_format z"
      "caught_failure e z ?s1 = Some ex" by blast
    then show ?thesis by (auto simp: caught_failure_block)
  qed
qed

lemma run_blocks_logs_failure:
  "caught_failure e x s = Some ex \<Longrightarrow>
     Render x t \<in> set (snd (snd (run_all (map (block e) ys) s))) \<Longrightarrow>
     LogError (log_format x) ex \<in> set (snd (snd (run_all (map (block e) ys) s)))"
proof (induction ys arbitrary: s)
  case Nil
  then show ?case by simp
next
  case (Cons y ys)
  let ?s1 = "fst (snd (block e y s))"
  have c1: "caught_failure e x ?s1 = Some ex"
    using Cons.prems(1) by (simp add: caught_failure_block)
  from Cons.prems(2) have
    "Render x t \<in> set (snd (snd (block e y s))) \<or>
     (fst (block e y s) = None \<and>
      Render x t \<in> set (snd (snd (run_all (map (block e) ys) ?s1))))"
    by (auto simp: run_all_Cons_proj simp del: run_all.simps split: option.splits)
  then show ?case
  proof
    assume "Render x t \<in> set (snd (snd (block e y s)))"
    from block_logs_failure[OF Cons.prems(1) this] show ?thesis
      by (auto simp: run_all_Cons_proj simp del: run_all.simps split: option.splits)
  next
    assume a: "fst (block e y s) = None \<and>
      Render x t \<in> set (snd (snd (run_all (map (block e) ys) ?s1)))"
    then have "LogError (log_format x) ex \<in> set (snd (snd (run_all (map (block e) ys) ?s1)))"
      using Cons.IH[OF c1] by blast
    then show ?thesis using a by (simp add: run_all_Cons_proj del: run_all.simps)
  qed
qed

lemma caught_failure_isolated:
  assumes "caught_failure e x s = Some ex" and "template_of x s = Some t"
  shows "attr_of x (entity (update_state e s)) = attr_of x s \<and>
         (Render x t \<in> set (calls (update_state e s)) \<longrightarrow>
            LogError (log_format x) ex \<in> set (calls (update_state e s))) \<and>
         (raised (update_state e s) = None \<longrightarrow>
            LogError (log_format x) ex \<in> set (calls (update_state e s))) \<and>
         raised (update_state e (without_template x s)) = raised (update_state e s) \<and>
         entity (update_state e (without_template x s)) =
           without_template x (entity (update_state e s)) \<and>
         (\<forall>y. attr_of y (entity (update_state e (without_template x s))) =
                attr_of y (entity (update_state e s))) \<and>
         calls (update_state e (without_template x s)) =
           filter (\<lambda>ev. \<not> concerns x ev) (calls (update_state e s))"
proof -
  note sim = run_blocks_failed_sim[OF assms(1), of update_order]
  have r: "raised (update_state e (without_template x s)) = raised (update_state e s)"
    using sim by (simp add: update_state_proj)
  have en: "entity (update_state e (without_template x s)) =
              without_template x (entity (update_state e s))"
    using sim by (simp add: update_state_proj)
  have ca: "calls (update_state e (without_template x s)) =
              filter (\<lambda>ev. \<not> concerns x ev) (calls (update_state e s))"
    using sim by (simp add: update_state_proj)
  have at: "\<forall>y. attr_of y (entity (update_state e (without_template x s))) =
                 attr_of y (entity (update_state e s))"
    by (simp add: en attr_of_without)
  have "template_of x (without_template x s) = None" by (simp add: template_of_without)
  from update_state_frame[OF this, of e]
  have keep: "attr_of x (entity (update_state e s)) = attr_of x s"
    using at by (simp add: attr_of_without)
  have lg: "Render x t \<in> set (calls (update_state e s)) \<longrightarrow>
              LogError (log_format x) ex \<in> set (calls (update_state e s))"
    using run_blocks_logs_failure[OF assms(1), of t update_order]
    by (simp add: update_state_proj)
  have "x \<in> set update_order" by (cases x) (simp_all add: update_order_def)
  then have reach: "raised (update_state e s) = None \<longrightarrow>
              Render x t \<in> set (calls (update_state e s))"
    using run_blocks_reached[OF assms(2), of update_order e]
    by (simp add: update_state_proj)
  from keep lg reach r en at ca show ?thesis by blast
qed


lemma py_float_exc:
  "py_float e v = Inl ex \<Longrightarrow> ex = ValueError \<or> ex = TypeError \<or> ex = OverflowError"
  by (cases v) (auto split: option.splits)

lemma convert_exc:
  "convert e y v = Inl ex \<Longrightarrow>
     (y = TargetHumidityT \<or> y = CurrentHumidityT) \<and> py_float e v = Inl ex"
  by (cases y) (auto split: sum.splits)

lemma block_raised:
  "fst (block e y s) = Some ex \<Longrightarrow>
     (y = TargetHumidityT \<or> y = CurrentHumidityT) \<and> (ex = TypeError \<or> ex = OverflowError)"
  by (auto simp: block_shape split: option.splits sum.splits if_splits
      dest!: convert_exc dest: py_float_exc)

lemma run_blocks_raised:
  "fst (run_all (map (block e) ys) s) = Some ex \<Longrightarrow> ex = TypeError \<or> ex = OverflowError"
proof (induction ys arbitrary: s)
  case Nil
  then show ?case by simp
next
  case (Cons y ys)
  show ?case
  proof (cases "fst (block e y s)")
    case None
    then show ?thesis using Cons by (simp add: run_all_Cons_proj del: run_all.simps)
  next
    case (Some a)
    then have "a = ex" using Cons.prems by (simp add: run_all_Cons_proj del: run_all.simps)
    then show ?thesis using block_raised[of e y s ex] Some by simp
  qed
qed

lemma update_state_stored:
  assumes "template_of x s = Some t" and "render e t = Inr v" and "convert e x v = Inr w"
    and "raised (update_state e s) = None"
  shows "attr_of x (entity (update_state e s)) = attr_of x (store x w s)"
proof -
  have "x \<in> set update_order" by (cases x) (simp_all add: update_order_def)
  then show ?thesis
    using run_blocks_stored[OF assms(1,2,3), of update_order] assms(4)
    by (simp add: update_state_proj)
qed

subsection \<open>A template that fails to render\<close>

text \<open>
  A template error in one slot is caught in its own block: the attribute of that slot keeps
  its value, the error is logged with the message of that slot (whenever the template was
  rendered at all, and always when the recompute returns), and the recompute treats every
  other slot as it would if the failing template were not configured.
\<close>

lemma template_error_is_isolated:
  assumes "template_of x s = Some t" and "render e t = Inl msg"
  shows "attr_of x (entity (update_state e s)) = attr_of x s \<and>
         (Render x t \<in> set (calls (update_state e s)) \<longrightarrow>
            LogError (log_format x) (TemplateError msg) \<in> set (calls (update_state e s))) \<and>
         (raised (update_state e s) = None \<longrightarrow>
            LogError (log_format x) (TemplateError msg) \<in> set (calls (update_state e s))) \<and>
         raised (update_state e (without_template x s)) = raised (update_state e s) \<and>
         entity (update_state e (without_template x s)) =
           without_template x (entity (update_state e s)) \<and>
         (\<forall>y. attr_of y (entity (update_state e (without_template x s))) =
                attr_of y (entity (update_state e s))) \<and>
         calls (update_state e (without_template x s)) =
           filter (\<lambda>ev. \<not> concerns x ev) (calls (update_state e s))"
proof -
  have "caught_failure e x s = Some (TemplateError msg)"
    using assms by (simp add: caught_failure_def)
  from caught_failure_isolated[OF this assms(1)] show ?thesis .
qed

lemma template_error_is_isolated_witness:
  "template_of StateT (init broken_state_config) =
     Some (Template ''{{ states.sensor.room.state | bad }}'' True) \<and>
   render sample_host (Template ''{{ states.sensor.room.state | bad }}'' True) =
     Inl ''no filter named bad'' \<and>
   attr_of StateT (entity (update_state sample_host (init broken_state_config))) = PBool False \<and>
   LogError ''Error rendering state template: %s'' (TemplateError ''no filter named bad'')
     \<in> set (calls (update_state sample_host (init broken_state_config))) \<and>
   attr_of TargetHumidityT (entity (update_state sample_host (init broken_state_config))) =
     PFloat (FRat 45) \<and>
   attr_of ActionT (entity (update_state sample_host (without_template StateT (init broken_state_config)))) =
     PStr ''humidifying''"
proof -
  let ?s = "init broken_state_config"
  let ?t = "Template ''{{ states.sensor.room.state | bad }}'' True"
  have h1: "template_of StateT ?s = Some ?t" by (simp add: broken_state_config_def sample_defs)
  have h2: "render sample_host ?t = Inl ''no filter named bad''" by (simp add: sample_defs)
  have u: "update_state sample_host ?s =
     (None,
      ?s\<lparr>attr_target_humidity := PFloat (FRat 45),
         attr_current_humidity := PFloat (FRat (103 / 2)), attr_mode := PStr ''eco'',
         attr_action := PStr ''humidifying''\<rparr>,
      [Render StateT ?t,
       LogError ''Error rendering state template: %s'' (TemplateError ''no filter named bad''),
       Render TargetHumidityT (Template ''{{ states.sensor.target.state }}'' True),
       Render CurrentHumidityT (Template ''{{ states.sensor.room.state }}'' True),
       Render ModeT (Template ''{{ states.select.mode.state }}'' True),
       Render ActionT (Template ''{{ states.sensor.action.state }}'' True)])"
    by (simp add: broken_state_config_def sample_defs run_defs)
  have a0: "attr_of StateT ?s = PBool False" by (simp add: broken_state_config_def sample_defs)
  from template_error_is_isolated[OF h1 h2] h1 h2 a0 u
  show ?thesis by (simp add: entity_def calls_def raised_def)
qed

text \<open>
  A recompute that returns has rendered every configured template, and has stored the
  converted result of every slot whose template rendered and whose result converted, whatever
  happened in the other slots.
\<close>

lemma returning_recompute_updates_each_slot:
  assumes "raised (update_state e s) = None" and "template_of x s = Some t"
  shows "Render x t \<in> set (calls (update_state e s)) \<and>
         (\<forall>v w. render e t = Inr v \<and> convert e x v = Inr w \<longrightarrow>
            attr_of x (entity (update_state e s)) = attr_of x (store x w s))"
proof -
  have "x \<in> set update_order" by (cases x) (simp_all add: update_order_def)
  then have "Render x t \<in> set (calls (update_state e s))"
    using run_blocks_reached[OF assms(2), of update_order e] assms(1)
    by (simp add: update_state_proj)
  moreover have "attr_of x (entity (update_state e s)) = attr_of x (store x w s)"
    if "render e t = Inr v" "convert e x v = Inr w" for v w
    using update_state_stored[OF assms(2) that assms(1)] .
  ultimately show ?thesis by blast
qed

text \<open>
  C3. A template error in one slot must not keep the other templates from being rendered and
  their attributes from being updated. Evaluated on a state template that raises a template
  error, followed by a target humidity template that renders \<open>None\<close>: the state error is
  caught and logged and the state kept, but \<open>float(None)\<close> then raises TypeError, which no
  handler catches, so the recompute ends there; the current humidity, mode and action
  templates, which would render, are never rendered and their attributes stay \<open>None\<close>. With
  the same state error and a target humidity that converts, all four are updated.
\<close>

theorem template_error_before_none_target:
  "template_of StateT (init broken_state_none_target_config) =
     Some (Template ''{{ states.sensor.room.state | bad }}'' True) \<and>
   render sample_host (Template ''{{ states.sensor.room.state | bad }}'' True) =
     Inl ''no filter named bad'' \<and>
   update_state sample_host (init broken_state_none_target_config) =
     (Some TypeError,
      init broken_state_none_target_config,
      [Render StateT (Template ''{{ states.sensor.room.state | bad }}'' True),
       LogError ''Error rendering state template: %s'' (TemplateError ''no filter named bad''),
       Render TargetHumidityT (Template ''{{ state_attr(climate.x, humidity) }}'' True)]) \<and>
   current_humidity_template (init broken_state_none_target_config) =
     Some (Template ''{{ states.sensor.room.state }}'' True) \<and>
   render sample_host (Template ''{{ states.sensor.room.state }}'' True) = Inr (PStr ''51.5'') \<and>
   mode_template (init broken_state_none_target_config) =
     Some (Template ''{{ states.select.mode.state }}'' True) \<and>
   render sample_host (Template ''{{ states.select.mode.state }}'' True) = Inr (PStr '' eco '') \<and>
   action_template (init broken_state_none_target_config) =
     Some (Template ''{{ states.sensor.action.state }}'' True) \<and>
   render sample_host (Template ''{{ states.sensor.action.state }}'' True) =
     Inr (PStr ''humidifying'') \<and>
   attr_current_humidity (entity (update_state sample_host (init broken_state_none_target_config))) = PNone \<and>
   attr_mode (entity (update_state sample_host (init broken_state_none_target_config))) = PNone \<and>
   attr_action (entity (update_state sample_host (init broken_state_none_target_config))) = PNone \<and>
   update_state sample_host (init broken_state_config) =
     (None,
      (init broken_state_config)\<lparr>attr_target_humidity := PFloat (FRat 45),
         attr_current_humidity := PFloat (FRat (103 / 2)), attr_mode := PStr ''eco'',
         attr_action := PStr ''humidifying''\<rparr>,
      [Render StateT (Template ''{{ states.sensor.room.state | bad }}'' True),
       LogError ''Error rendering state template: %s'' (TemplateError ''no filter named bad''),
       Render TargetHumidityT (Template ''{{ states.sensor.target.state }}'' True),
       Render CurrentHumidityT (Template ''{{ states.sensor.room.state }}'' True),
       Render ModeT (Template ''{{ states.select.mode.state }}'' True),
       Render ActionT (Template ''{{ states.sensor.action.state }}'' True)])"
  by (simp add: broken_state_none_target_config_def none_target_config_def
      broken_state_config_def sample_defs run_defs entity_def)

subsection \<open>A humidity result that is not a number\<close>

text \<open>
  C10. For the target and the current humidity, a rendered value on which \<open>float()\<close> raises
  ValueError is handled as a template error is: the attribute keeps its value, the error is
  logged with the message of the slot, and the recompute goes on as if the template were not
  configured. A recompute never ends in a ValueError. The mode and action blocks accept every
  rendered value: the mode becomes its text form stripped of surrounding whitespace, the
  action its text form, and no ValueError is ever logged for them.
\<close>

theorem float_value_error_is_caught:
  "((x = TargetHumidityT \<or> x = CurrentHumidityT) \<and> template_of x s = Some t \<and>
    render e t = Inr v \<and> py_float e v = Inl ValueError \<longrightarrow>
      attr_of x (entity (update_state e s)) = attr_of x s \<and>
      (Render x t \<in> set (calls (update_state e s)) \<longrightarrow>
         LogError (log_format x) ValueError \<in> set (calls (update_state e s))) \<and>
      (raised (update_state e s) = None \<longrightarrow>
         LogError (log_format x) ValueError \<in> set (calls (update_state e s))) \<and>
      raised (update_state e (without_template x s)) = raised (update_state e s) \<and>
      entity (update_state e (without_template x s)) =
        without_template x (entity (update_state e s)) \<and>
      calls (update_state e (without_template x s)) =
        filter (\<lambda>ev. \<not> concerns x ev) (calls (update_state e s))) \<and>
   raised (update_state e s) \<noteq> Some ValueError \<and>
   (mode_template s = Some tm \<and> render e tm = Inr vm \<longrightarrow>
      render_mode e s = (None, s\<lparr>attr_mode := PStr (py_strip (py_str e vm))\<rparr>, [Render ModeT tm]) \<and>
      (raised (update_state e s) = None \<longrightarrow>
         attr_mode (entity (update_state e s)) = PStr (py_strip (py_str e vm)))) \<and>
   (action_template s = Some ta \<and> render e ta = Inr va \<longrightarrow>
      render_action e s = (None, s\<lparr>attr_action := PStr (py_str e va)\<rparr>, [Render ActionT ta]) \<and>
      (raised (update_state e s) = None \<longrightarrow>
         attr_action (entity (update_state e s)) = PStr (py_str e va))) \<and>
   LogError (log_format ModeT) ValueError \<notin> set (calls (update_state e s)) \<and>
   LogError (log_format ActionT) ValueError \<notin> set (calls (update_state e s))"
proof -
  have hum: "attr_of x (entity (update_state e s)) = attr_of x s \<and>
      (Render x t \<in> set (calls (update_state e s)) \<longrightarrow>
         LogError (log_format x) ValueError \<in> set (calls (update_state e s))) \<and>
      (raised (update_state e s) = None \<longrightarrow>
         LogError (log_format x) ValueError \<in> set (calls (update_state e s))) \<and>
      raised (update_state e (without_template x s)) = raised (update_state e s) \<and>
      entity (update_state e (without_template x s)) =
        without_template x (entity (update_state e s)) \<and>
      calls (update_state e (without_template x s)) =
        filter (\<lambda>ev. \<not> concerns x ev) (calls (update_state e s))"
    if h: "x = TargetHumidityT \<or> x = CurrentHumidityT" "template_of x s = Some t"
      "render e t = Inr v" "py_float e v = Inl ValueError"
  proof -
    have "caught_failure e x s = Some ValueError"
      using h by (auto simp: caught_failure_def)
    from caught_failure_isolated[OF this h(2)] show ?thesis by blast
  qed
  have nv: "raised (update_state e s) \<noteq> Some ValueError"
    using run_blocks_raised[of e update_order s ValueError] by (auto simp: update_state_proj)
  have md: "render_mode e s = (None, s\<lparr>attr_mode := PStr (py_strip (py_str e vm))\<rparr>, [Render ModeT tm]) \<and>
      (raised (update_state e s) = None \<longrightarrow>
         attr_mode (entity (update_state e s)) = PStr (py_strip (py_str e vm)))"
    if h: "mode_template s = Some tm" "render e tm = Inr vm"
  proof -
    have "template_of ModeT s = Some tm" using h by simp
    from update_state_stored[OF this h(2), of "PStr (py_strip (py_str e vm))"]
    show ?thesis using h by (simp add: render_mode_def)
  qed
  have ac: "render_action e s = (None, s\<lparr>attr_action := PStr (py_str e va)\<rparr>, [Render ActionT ta]) \<and>
      (raised (update_state e s) = None \<longrightarrow>
         attr_action (entity (update_state e s)) = PStr (py_str e va))"
    if h: "action_template s = Some ta" "render e ta = Inr va"
  proof -
    have "template_of ActionT s = Some ta" using h by simp
    from update_state_stored[OF this h(2), of "PStr (py_str e va)"]
    show ?thesis using h by (simp add: render_action_def)
  qed
  have lm: "LogError (log_format y) ValueError \<notin> set (calls (update_state e s))"
    if y: "y = ModeT \<or> y = ActionT" for y
  proof
    assume "LogError (log_format y) ValueError \<in> set (calls (update_state e s))"
    then obtain z where z: "log_format y = log_format z" "caught_failure e z s = Some ValueError"
      using run_blocks_logged[of "log_format y" ValueError e update_order s]
      by (auto simp: update_state_proj)
    then have "z = y" by (simp add: log_format_inj)
    with z(2) y show False
      by (auto simp: caught_failure_def split: option.splits sum.splits)
  qed
  from hum nv md ac lm[of ModeT] lm[of ActionT] show ?thesis by blast
qed

theorem float_value_error_is_caught_witness:
  "template_of CurrentHumidityT (init gone_sensor_config) =
     Some (Template ''{{ states.sensor.gone.state }}'' True) \<and>
   render sample_host (Template ''{{ states.sensor.gone.state }}'' True) = Inr (PStr ''unavailable'') \<and>
   py_float sample_host (PStr ''unavailable'') = Inl ValueError \<and>
   mode_template (init gone_sensor_config) = Some (Template ''{{ states.select.mode.state }}'' True) \<and>
   render sample_host (Template ''{{ states.select.mode.state }}'' True) = Inr (PStr '' eco '') \<and>
   raised (update_state sample_host (init gone_sensor_config)) = None \<and>
   attr_of CurrentHumidityT (entity (update_state sample_host (init gone_sensor_config))) = PNone \<and>
   LogError ''Error rendering current humidity template: %s'' ValueError
     \<in> set (calls (update_state sample_host (init gone_sensor_config))) \<and>
   attr_mode (entity (update_state sample_host (init gone_sensor_config))) = PStr ''eco''"
proof -
  let ?s = "init gone_sensor_config"
  let ?t = "Template ''{{ states.sensor.gone.state }}'' True"
  let ?tm = "Template ''{{ states.select.mode.state }}'' True"
  have h1: "template_of CurrentHumidityT ?s = Some ?t"
    by (simp add: gone_sensor_config_def sample_defs)
  have h2: "render sample_host ?t = Inr (PStr ''unavailable'')" by (simp add: sample_defs)
  have h3: "py_float sample_host (PStr ''unavailable'') = Inl ValueError" by (simp add: sample_defs)
  have h4: "mode_template ?s = Some ?tm" by (simp add: gone_sensor_config_def sample_defs)
  have h5: "render sample_host ?tm = Inr (PStr '' eco '')" by (simp add: sample_defs)
  have r: "raised (update_state sample_host ?s) = None"
    by (simp add: gone_sensor_config_def sample_defs run_defs raised_def)
  have a0: "attr_of CurrentHumidityT ?s = PNone" by (simp add: gone_sensor_config_def sample_defs)
  have st: "py_strip (py_str sample_host (PStr '' eco '')) = ''eco''"
    by (simp add: py_strip_def py_isspace_def)
  from float_value_error_is_caught
    [of CurrentHumidityT ?s ?t sample_host "PStr ''unavailable''" ?tm "PStr '' eco ''"]
    h1 h2 h3 h4 h5 r a0 st
  show ?thesis by simp
qed


lemma async_update_state_returns:
  "raised (update_state e s) = None \<Longrightarrow>
     async_update_state e s =
       (None, entity (update_state e s),
        calls (update_state e s) @ [WriteHaState (entity (update_state e s))])"
  by (cases "update_state e s")
     (simp add: async_update_state_def async_write_ha_state_def raised_def entity_def calls_def)

lemma async_update_state_raises:
  "raised (update_state e s) = Some ex \<Longrightarrow> async_update_state e s = update_state e s"
  by (cases "update_state e s") (simp add: async_update_state_def raised_def)

subsection \<open>Rendering, converting and storing\<close>

text \<open>
  When every configured template renders and the two humidity results convert to a float,
  the recompute returns normally, renders each configured template once, in the order state,
  target humidity, current humidity, mode, action, and logs nothing; the state becomes the
  boolean of the state result (true for \<open>True\<close>, \<open>"True"\<close>, \<open>"true"\<close>, \<open>"on"\<close>, \<open>"On"\<close>,
  \<open>"ON"\<close>, \<open>1\<close>, \<open>"1"\<close>; false for \<open>False\<close>, \<open>"False"\<close>, \<open>"false"\<close>, \<open>"off"\<close>, \<open>"Off"\<close>,
  \<open>"OFF"\<close>, \<open>0\<close>, \<open>"0"\<close>; the truth value of the result otherwise), the target and current
  humidity become the float of their results, the mode becomes the stripped text of its
  result and the action the text of its result.
\<close>

lemma recompute_coerces_and_stores:
  assumes "\<forall>y. succeeds e s y"
  shows "raised (update_state e s) = None \<and>
         calls (update_state e s) = render_calls s update_order \<and>
         (\<forall>t. state_template s = Some t \<longrightarrow>
            (\<exists>v. render e t = Inr v \<and> state (entity (update_state e s)) = state_of_result v)) \<and>
         (\<forall>t. target_humidity_template s = Some t \<longrightarrow>
            (\<exists>v f. render e t = Inr v \<and> py_float e v = Inr f \<and>
               attr_target_humidity (entity (update_state e s)) = PFloat f)) \<and>
         (\<forall>t. current_humidity_template s = Some t \<longrightarrow>
            (\<exists>v f. render e t = Inr v \<and> py_float e v = Inr f \<and>
               attr_current_humidity (entity (update_state e s)) = PFloat f)) \<and>
         (\<forall>t. mode_template s = Some t \<longrightarrow>
            (\<exists>v. render e t = Inr v \<and>
               attr_mode (entity (update_state e s)) = PStr (py_strip (py_str e v)))) \<and>
         (\<forall>t. action_template s = Some t \<longrightarrow>
            (\<exists>v. render e t = Inr v \<and>
               attr_action (entity (update_state e s)) = PStr (py_str e v))) \<and>
         (\<forall>v. state_of_result v =
            (if v \<in> set [PBool True, PStr ''True'', PStr ''true'', PStr ''on'', PStr ''On'',
                          PStr ''ON'', PInt 1, PStr ''1'']
             then True
             else if v \<in> set [PBool False, PStr ''False'', PStr ''false'', PStr ''off'',
                               PStr ''Off'', PStr ''OFF'', PInt 0, PStr ''0'']
             then False
             else py_bool v))"
proof -
  have all: "list_all (succeeds e s) update_order" using assms by (simp add: list_all_iff)
  from run_blocks_succeed[OF all]
  have r: "raised (update_state e s) = None"
    and c: "calls (update_state e s) = render_calls s update_order"
    by (simp_all add: update_state_proj)
  have stored: "\<exists>v w. render e t = Inr v \<and> convert e x v = Inr w \<and>
                  attr_of x (entity (update_state e s)) = attr_of x (store x w s)"
    if t: "template_of x s = Some t" for x t
  proof -
    from assms have "succeeds e s x" by simp
    from succeeds_convert[OF this t] obtain v w where vw: "render e t = Inr v" "convert e x v = Inr w"
      by blast
    from update_state_stored[OF t vw r] vw show ?thesis by blast
  qed
  have st: "\<exists>v. render e t = Inr v \<and> state (entity (update_state e s)) = state_of_result v"
    if "state_template s = Some t" for t
    using stored[of StateT t] that by auto
  have tg: "\<exists>v f. render e t = Inr v \<and> py_float e v = Inr f \<and>
               attr_target_humidity (entity (update_state e s)) = PFloat f"
    if "target_humidity_template s = Some t" for t
  proof -
    from stored[of TargetHumidityT t] that obtain v w where vw: "render e t = Inr v"
      "convert e TargetHumidityT v = Inr w" "attr_target_humidity (entity (update_state e s)) = w"
      by auto
    from vw(2) obtain f where "py_float e v = Inr f" "w = PFloat f"
      by (cases "py_float e v") auto
    with vw show ?thesis by blast
  qed
  have cu: "\<exists>v f. render e t = Inr v \<and> py_float e v = Inr f \<and>
               attr_current_humidity (entity (update_state e s)) = PFloat f"
    if "current_humidity_template s = Some t" for t
  proof -
    from stored[of CurrentHumidityT t] that obtain v w where vw: "render e t = Inr v"
      "convert e CurrentHumidityT v = Inr w" "attr_current_humidity (entity (update_state e s)) = w"
      by auto
    from vw(2) obtain f where "py_float e v = Inr f" "w = PFloat f"
      by (cases "py_float e v") auto
    with vw show ?thesis by blast
  qed
  have md: "\<exists>v. render e t = Inr v \<and>
               attr_mode (entity (update_state e s)) = PStr (py_strip (py_str e v))"
    if "mode_template s = Some t" for t
    using stored[of ModeT t] that by auto
  have ac: "\<exists>v. render e t = Inr v \<and>
               attr_action (entity (update_state e s)) = PStr (py_str e v)"
    if "action_template s = Some t" for t
    using stored[of ActionT t] that by auto
  from r c st tg cu md ac state_of_result_literal show ?thesis by blast
qed

lemma recompute_coerces_and_stores_witness:
  "(\<forall>y. succeeds sample_host (init templated_config) y) \<and>
   update_state sample_host (init templated_config) =
     (None,
      (init templated_config)\<lparr>state := True, attr_target_humidity := PFloat (FRat 45),
         attr_current_humidity := PFloat (FRat (103 / 2)), attr_mode := PStr ''eco'',
         attr_action := PStr ''humidifying''\<rparr>,
      [Render StateT (Template ''{{ states.switch.fan.state }}'' True),
       Render TargetHumidityT (Template ''{{ states.sensor.target.state }}'' True),
       Render CurrentHumidityT (Template ''{{ states.sensor.room.state }}'' True),
       Render ModeT (Template ''{{ states.select.mode.state }}'' True),
       Render ActionT (Template ''{{ states.sensor.action.state }}'' True)]) \<and>
   raised (update_state sample_host (init templated_config)) = None \<and>
   calls (update_state sample_host (init templated_config)) =
     render_calls (init templated_config) update_order \<and>
   state_of_result (PStr ''ON'') \<and> \<not> state_of_result (PInt 0) \<and>
   state_of_result (PStr ''humidifying'')"
proof -
  let ?s = "init templated_config"
  have h: "\<forall>y. succeeds sample_host ?s y"
  proof
    fix y show "succeeds sample_host ?s y"
      by (cases y) (simp_all add: succeeds_def sample_defs)
  qed
  have u: "update_state sample_host ?s =
     (None,
      ?s\<lparr>state := True, attr_target_humidity := PFloat (FRat 45),
         attr_current_humidity := PFloat (FRat (103 / 2)), attr_mode := PStr ''eco'',
         attr_action := PStr ''humidifying''\<rparr>,
      [Render StateT (Template ''{{ states.switch.fan.state }}'' True),
       Render TargetHumidityT (Template ''{{ states.sensor.target.state }}'' True),
       Render CurrentHumidityT (Template ''{{ states.sensor.room.state }}'' True),
       Render ModeT (Template ''{{ states.select.mode.state }}'' True),
       Render ActionT (Template ''{{ states.sensor.action.state }}'' True)])"
    by (simp add: sample_defs run_defs)
  note inst = recompute_coerces_and_stores[OF h]
  have lit: "state_of_result (PStr ''ON'')" "\<not> state_of_result (PInt 0)"
    "state_of_result (PStr ''humidifying'')"
    using inst by simp_all
  from inst h u lit show ?thesis by blast
qed

text \<open>
  C4. The recompute is to render every configured template and to store each coerced result.
  Evaluated on a target humidity template that renders \<open>None\<close> while the four other
  templates render: the state is rendered and stored, \<open>float(None)\<close> raises TypeError, which
  the handler for template errors and ValueError does not catch, and the recompute ends with
  that exception; the current humidity, mode and action templates are not rendered and their
  attributes keep \<open>None\<close> instead of the float, the stripped text and the text of their
  results.
\<close>

theorem recompute_with_none_target:
  "target_humidity_template (init none_target_config) =
     Some (Template ''{{ state_attr(climate.x, humidity) }}'' True) \<and>
   render sample_host (Template ''{{ state_attr(climate.x, humidity) }}'' True) = Inr PNone \<and>
   py_float sample_host PNone = Inl TypeError \<and>
   update_state sample_host (init none_target_config) =
     (Some TypeError,
      (init none_target_config)\<lparr>state := True\<rparr>,
      [Render StateT (Template ''{{ states.switch.fan.state }}'' True),
       Render TargetHumidityT (Template ''{{ state_attr(climate.x, humidity) }}'' True)]) \<and>
   current_humidity_template (init none_target_config) =
     Some (Template ''{{ states.sensor.room.state }}'' True) \<and>
   render sample_host (Template ''{{ states.sensor.room.state }}'' True) = Inr (PStr ''51.5'') \<and>
   py_float sample_host (PStr ''51.5'') = Inr (FRat (103 / 2)) \<and>
   attr_current_humidity (entity (update_state sample_host (init none_target_config))) = PNone \<and>
   mode_template (init none_target_config) =
     Some (Template ''{{ states.select.mode.state }}'' True) \<and>
   render sample_host (Template ''{{ states.select.mode.state }}'' True) = Inr (PStr '' eco '') \<and>
   attr_mode (entity (update_state sample_host (init none_target_config))) = PNone \<and>
   action_template (init none_target_config) =
     Some (Template ''{{ states.sensor.action.state }}'' True) \<and>
   render sample_host (Template ''{{ states.sensor.action.state }}'' True) =
     Inr (PStr ''humidifying'') \<and>
   attr_action (entity (update_state sample_host (init none_target_config))) = PNone"
  by (simp add: none_target_config_def sample_defs run_defs entity_def)

subsection \<open>The state-change callback on a target humidity of \<open>None\<close>\<close>

text \<open>
  C7. The callback for a state change runs the recompute and then writes the entity state,
  and the entity runs the same recompute once when it is added. Evaluated on a target
  humidity template that renders \<open>None\<close>: \<open>float(None)\<close> raises TypeError, which the
  handler for template errors and ValueError does not catch, so the callback ends with that
  exception after the target humidity render, without a log line, without rendering the
  current humidity, mode and action templates and without writing the entity state; the
  recompute at addition ends with the same exception.
\<close>

theorem state_change_with_none_target:
  "render sample_host (Template ''{{ state_attr(climate.x, humidity) }}'' True) = Inr PNone \<and>
   py_float sample_host PNone = Inl TypeError \<and>
   async_update_state sample_host (init none_target_config) =
     (Some TypeError,
      (init none_target_config)\<lparr>state := True\<rparr>,
      [Render StateT (Template ''{{ states.switch.fan.state }}'' True),
       Render TargetHumidityT (Template ''{{ state_attr(climate.x, humidity) }}'' True)]) \<and>
   WriteHaState ((init none_target_config)\<lparr>state := True\<rparr>)
     \<notin> set (calls (async_update_state sample_host (init none_target_config))) \<and>
   LogError (log_format TargetHumidityT) TypeError
     \<notin> set (calls (async_update_state sample_host (init none_target_config))) \<and>
   Render CurrentHumidityT (Template ''{{ states.sensor.room.state }}'' True)
     \<notin> set (calls (async_update_state sample_host (init none_target_config))) \<and>
   raised (async_added_to_hass sample_host (init none_target_config)) = Some TypeError"
  by (simp add: none_target_config_def sample_defs run_defs async_update_state_def
      async_added_to_hass_def attach_hass_def set_hass_def get_template_entities_def
      gathered_templates_def calls_def raised_def Let_def)

section \<open>Properties of the subscription\<close>

subsection \<open>Gathering\<close>

lemma set_gather:
  "set (gather e ts acc) = set acc \<union> (\<Union>tpl \<in> set ts. referenced e tpl)"
  by (induction e ts acc rule: gather.induct)
     (auto simp: referenced_def split: sum.splits)

lemma distinct_gather: "distinct acc \<Longrightarrow> distinct (gather e ts acc)"
  by (induction e ts acc rule: gather.induct) (auto split: sum.splits)

lemma slot_UNIV: "(UNIV :: slot set) = {StateT, TargetHumidityT, CurrentHumidityT, ModeT, ActionT}"
proof -
  have "x \<in> {StateT, TargetHumidityT, CurrentHumidityT, ModeT, ActionT}" for x :: slot
    by (cases x) simp_all
  then show ?thesis by blast
qed

lemma gathered_templates_slots: "set (gathered_templates s) = (\<lambda>y. template_of y s) ` UNIV"
  by (auto simp: gathered_templates_def slot_UNIV)

lemma block_calls_kind:
  "ev \<in> set (snd (snd (block e y s))) \<Longrightarrow> (\<exists>t. ev = Render y t) \<or> (\<exists>ex. ev = LogError (log_format y) ex)"
  by (auto simp: block_shape split: option.splits sum.splits if_splits)

lemma run_blocks_calls_kind:
  "ev \<in> set (snd (snd (run_all (map (block e) ys) s))) \<Longrightarrow>
     (\<exists>y t. ev = Render y t) \<or> (\<exists>fmt ex. ev = LogError fmt ex)"
proof (induction ys arbitrary: s)
  case Nil
  then show ?case by simp
next
  case (Cons y ys)
  from Cons.prems have
    "ev \<in> set (snd (snd (block e y s))) \<or>
     ev \<in> set (snd (snd (run_all (map (block e) ys) (fst (snd (block e y s))))))"
    by (auto simp: run_all_Cons_proj simp del: run_all.simps split: option.splits)
  then show ?case using block_calls_kind[of ev e y s] Cons.IH by blast
qed

lemma calls_async_added_to_hass:
  "calls (async_added_to_hass e s) =
     SuperAddedToHass # TrackStateChange (get_template_entities e (attach_hass s)) #
       calls (update_state e (attach_hass s))"
  by (cases "update_state e (attach_hass s)") (simp add: async_added_to_hass_def calls_def Let_def)

subsection \<open>The subscribed entities\<close>

text \<open>
  C5. The entities the component subscribes to are exactly those that the analysis of the
  five templates reports, each listed once: a slot without template and a template whose
  analysis raises a template error contribute nothing, and the others are still gathered.
  Adding the entity to the host subscribes once, with this list, computed after the host
  handle is attached to the templates.
\<close>

theorem subscribed_entities:
  "set (get_template_entities e s) = (\<Union>y. referenced e (template_of y s)) \<and>
   distinct (get_template_entities e s) \<and>
   calls (async_added_to_hass e s) =
     SuperAddedToHass # TrackStateChange (get_template_entities e (attach_hass s)) #
       calls (update_state e (attach_hass s)) \<and>
   (\<forall>es. TrackStateChange es \<in> set (calls (async_added_to_hass e s)) \<longrightarrow>
      es = get_template_entities e (attach_hass s)) \<and>
   (\<forall>y. template_of y (attach_hass s) = set_hass (template_of y s))"
proof -
  have a: "set (get_template_entities e s) = (\<Union>y. referenced e (template_of y s))"
    by (simp add: get_template_entities_def set_gather gathered_templates_slots)
  have b: "distinct (get_template_entities e s)"
    by (simp add: get_template_entities_def distinct_gather)
  have d: "es = get_template_entities e (attach_hass s)"
    if "TrackStateChange es \<in> set (calls (async_added_to_hass e s))" for es
  proof -
    have "TrackStateChange es \<notin> set (calls (update_state e (attach_hass s)))"
      using run_blocks_calls_kind[of "TrackStateChange es" e update_order "attach_hass s"]
      by (auto simp: update_state_proj)
    with that show ?thesis by (simp add: calls_async_added_to_hass)
  qed
  have t: "template_of y (attach_hass s) = set_hass (template_of y s)" for y
    by (cases y) (simp_all add: attach_hass_def)
  from a b calls_async_added_to_hass d t show ?thesis by blast
qed

theorem subscribed_entities_witness:
  "referenced sample_host (template_of StateT (init broken_state_config)) = {} \<and>
   referenced sample_host (template_of ActionT (init broken_state_config)) =
     {''sensor.action'', ''sensor.room''} \<and>
   set (get_template_entities sample_host (init broken_state_config)) =
     {''sensor.target'', ''sensor.room'', ''select.mode'', ''sensor.action''} \<and>
   length (get_template_entities sample_host (init broken_state_config)) = 4 \<and>
   distinct (get_template_entities sample_host (init broken_state_config))"
proof -
  let ?s = "init broken_state_config"
  have g: "get_template_entities sample_host ?s =
             [''sensor.action'', ''select.mode'', ''sensor.room'', ''sensor.target'']"
    by (simp add: get_template_entities_def gathered_templates_def broken_state_config_def
        sample_defs List.union_def List.insert_def)
  have r1: "referenced sample_host (template_of StateT ?s) = {}"
    by (simp add: referenced_def broken_state_config_def sample_defs)
  have r2: "referenced sample_host (template_of ActionT ?s) = {''sensor.action'', ''sensor.room''}"
    by (simp add: referenced_def broken_state_config_def sample_defs)
  from subscribed_entities[of sample_host ?s] g r1 r2 show ?thesis by auto
qed

lemmas schema_defs = schema_extension_def CONF_NAME_def CONF_UNIQUE_ID_def CONF_MIN_HUMIDITY_def
  CONF_MAX_HUMIDITY_def CONF_TARGET_HUMIDITY_TEMPLATE_def CONF_CURRENT_HUMIDITY_TEMPLATE_def
  CONF_STATE_TEMPLATE_def CONF_MODE_TEMPLATE_def CONF_ACTION_TEMPLATE_def CONF_MODES_def
  CONF_SET_TARGET_HUMIDITY_ACTION_def CONF_SET_MODE_ACTION_def CONF_TURN_ON_ACTION_def
  CONF_TURN_OFF_ACTION_def DEFAULT_NAME_def DEFAULT_MIN_HUMIDITY_def DEFAULT_MAX_HUMIDITY_def
  DEFAULT_MODES_def

lemma schema_extension_table:
  "schema_extension =
     [(Optional ''name'' (Some (PStr ''Template Humidifier'')), CvString),
      (Optional ''unique_id'' None, CvString),
      (Optional ''min_humidity'' (Some (PInt 40)), CoerceFloat),
      (Optional ''max_humidity'' (Some (PInt 70)), CoerceFloat),
      (Optional ''target_humidity_template'' None, CvTemplate),
      (Optional ''current_humidity_template'' None, CvTemplate),
      (Optional ''state_template'' None, CvTemplate),
      (Optional ''mode_template'' None, CvTemplate),
      (Optional ''action_template'' None, CvTemplate),
      (Optional ''modes''
         (Some (PList [PStr ''normal'', PStr ''eco'', PStr ''away'', PStr ''boost'',
                       PStr ''comfort'', PStr ''home'', PStr ''sleep'', PStr ''auto'',
                       PStr ''baby''])), CvEnsureList),
      (Optional ''set_target_humidity_action'' None, CvScriptSchema),
      (Optional ''set_mode_action'' None, CvScriptSchema),
      (Optional ''turn_on_action'' None, CvScriptSchema),
      (Optional ''turn_off_action'' None, CvScriptSchema)]"
  by (simp add: schema_defs)

lemma schema_keys_extend:
  "set (schema_keys (extend base ext)) = set (schema_keys base) \<union> set (schema_keys ext)"
  by (auto simp: extend_def schema_keys_def)

lemma extend_entries:
  "entry \<in> set (extend base ext) \<Longrightarrow> key_name (fst entry) \<in> set (schema_keys ext) \<Longrightarrow>
     entry \<in> set ext"
  by (auto simp: extend_def)

section \<open>Properties of the configuration schema\<close>

text \<open>
  C6. The source extends the platform schema by exactly fourteen keys, all optional: name
  (default \<open>Template Humidifier\<close>), unique id, minimum and maximum humidity (coerced to
  float, defaults 40 and 70), the five templates (target humidity, current humidity, state,
  mode, action), the mode list (defaulting to the nine standard modes) and the four scripts
  (set target humidity, set mode, turn on, turn off). An empty configuration is completed with
  the four defaults only, and the extended schema holds these entries next to whatever other
  keys the host's base schema has.
\<close>

theorem schema_fields:
  "schema_keys schema_extension =
     [''name'', ''unique_id'', ''min_humidity'', ''max_humidity'', ''target_humidity_template'',
      ''current_humidity_template'', ''state_template'', ''mode_template'', ''action_template'',
      ''modes'', ''set_target_humidity_action'', ''set_mode_action'', ''turn_on_action'',
      ''turn_off_action''] \<and>
   distinct (schema_keys schema_extension) \<and>
   list_all (\<lambda>entry. is_optional (fst entry)) schema_extension \<and>
   map_of (map (\<lambda>entry. (key_name (fst entry), (key_default (fst entry), snd entry))) schema_extension) =
     [''name'' \<mapsto> (Some (PStr ''Template Humidifier''), CvString),
      ''unique_id'' \<mapsto> (None, CvString),
      ''min_humidity'' \<mapsto> (Some (PInt 40), CoerceFloat),
      ''max_humidity'' \<mapsto> (Some (PInt 70), CoerceFloat),
      ''target_humidity_template'' \<mapsto> (None, CvTemplate),
      ''current_humidity_template'' \<mapsto> (None, CvTemplate),
      ''state_template'' \<mapsto> (None, CvTemplate),
      ''mode_template'' \<mapsto> (None, CvTemplate),
      ''action_template'' \<mapsto> (None, CvTemplate),
      ''modes'' \<mapsto>
         (Some (PList [PStr ''normal'', PStr ''eco'', PStr ''away'', PStr ''boost'',
                       PStr ''comfort'', PStr ''home'', PStr ''sleep'', PStr ''auto'',
                       PStr ''baby'']), CvEnsureList),
      ''set_target_humidity_action'' \<mapsto> (None, CvScriptSchema),
      ''set_mode_action'' \<mapsto> (None, CvScriptSchema),
      ''turn_on_action'' \<mapsto> (None, CvScriptSchema),
      ''turn_off_action'' \<mapsto> (None, CvScriptSchema)] \<and>
   fill_defaults schema_extension [] =
     [(''name'', PStr ''Template Humidifier''), (''min_humidity'', PInt 40),
      (''max_humidity'', PInt 70),
      (''modes'', PList [PStr ''normal'', PStr ''eco'', PStr ''away'', PStr ''boost'',
                         PStr ''comfort'', PStr ''home'', PStr ''sleep'', PStr ''auto'',
                         PStr ''baby''])] \<and>
   (\<forall>f. float_from_int e 40 = Some f \<longrightarrow> coerce_float e (PInt 40) = Inr (PFloat f)) \<and>
   (\<forall>f. float_from_int e 70 = Some f \<longrightarrow> coerce_float e (PInt 70) = Inr (PFloat f)) \<and>
   set (schema_keys (PLATFORM_SCHEMA base)) = set (schema_keys base) \<union> set (schema_keys schema_extension) \<and>
   (\<forall>entry \<in> set (PLATFORM_SCHEMA base).
      key_name (fst entry) \<in> set (schema_keys schema_extension) \<longrightarrow> entry \<in> set schema_extension)"
proof -
  have k: "schema_keys schema_extension =
     [''name'', ''unique_id'', ''min_humidity'', ''max_humidity'', ''target_humidity_template'',
      ''current_humidity_template'', ''state_template'', ''mode_template'', ''action_template'',
      ''modes'', ''set_target_humidity_action'', ''set_mode_action'', ''turn_on_action'',
      ''turn_off_action'']"
    by (simp add: schema_keys_def schema_extension_table)
  have d: "distinct (schema_keys schema_extension)" by (simp add: k)
  have o: "list_all (\<lambda>entry. is_optional (fst entry)) schema_extension"
    by (simp add: schema_extension_table)
  have m: "map_of (map (\<lambda>entry. (key_name (fst entry), (key_default (fst entry), snd entry))) schema_extension) =
     [''name'' \<mapsto> (Some (PStr ''Template Humidifier''), CvString),
      ''unique_id'' \<mapsto> (None, CvString),
      ''min_humidity'' \<mapsto> (Some (PInt 40), CoerceFloat),
      ''max_humidity'' \<mapsto> (Some (PInt 70), CoerceFloat),
      ''target_humidity_template'' \<mapsto> (None, CvTemplate),
      ''current_humidity_template'' \<mapsto> (None, CvTemplate),
      ''state_template'' \<mapsto> (None, CvTemplate),
      ''mode_template'' \<mapsto> (None, CvTemplate),
      ''action_template'' \<mapsto> (None, CvTemplate),
      ''modes'' \<mapsto>
         (Some (PList [PStr ''normal'', PStr ''eco'', PStr ''away'', PStr ''boost'',
                       PStr ''comfort'', PStr ''home'', PStr ''sleep'', PStr ''auto'',
                       PStr ''baby'']), CvEnsureList),
      ''set_target_humidity_action'' \<mapsto> (None, CvScriptSchema),
      ''set_mode_action'' \<mapsto> (None, CvScriptSchema),
      ''turn_on_action'' \<mapsto> (None, CvScriptSchema),
      ''turn_off_action'' \<mapsto> (None, CvScriptSchema)]"
    by (rule ext) (simp add: schema_extension_table)
  have f: "fill_defaults schema_extension [] =
     [(''name'', PStr ''Template Humidifier''), (''min_humidity'', PInt 40),
      (''max_humidity'', PInt 70),
      (''modes'', PList [PStr ''normal'', PStr ''eco'', PStr ''away'', PStr ''boost'',
                         PStr ''comfort'', PStr ''home'', PStr ''sleep'', PStr ''auto'',
                         PStr ''baby''])]"
    by (simp add: schema_extension_table)
  have c: "\<forall>f. float_from_int e i = Some f \<longrightarrow> coerce_float e (PInt i) = Inr (PFloat f)" for i
    by simp
  have p: "set (schema_keys (PLATFORM_SCHEMA base)) =
             set (schema_keys base) \<union> set (schema_keys schema_extension)"
    by (simp add: PLATFORM_SCHEMA_def schema_keys_extend)
  have q: "\<forall>entry \<in> set (PLATFORM_SCHEMA base).
      key_name (fst entry) \<in> set (schema_keys schema_extension) \<longrightarrow> entry \<in> set schema_extension"
    using extend_entries[of _ base schema_extension] by (auto simp: PLATFORM_SCHEMA_def)
  from k d o m f c[of 40] c[of 70] p q show ?thesis by blast
qed

theorem schema_fields_witness:
  "float_from_int sample_host 40 = Some (FRat 40) \<and>
   coerce_float sample_host (PInt 40) = Inr (PFloat (FRat 40)) \<and>
   coerce_float sample_host (PInt 70) = Inr (PFloat (FRat 70)) \<and>
   length (schema_keys schema_extension) = 14 \<and>
   set (schema_keys (PLATFORM_SCHEMA [(Required ''platform'', CvString)])) =
     insert ''platform'' (set (schema_keys schema_extension))"
proof -
  have h: "float_from_int sample_host 40 = Some (FRat 40)"
    "float_from_int sample_host 70 = Some (FRat 70)" by (simp_all add: sample_defs)
  note inst = schema_fields[of sample_host "[(Required ''platform'', CvString)]"]
  have c: "coerce_float sample_host (PInt 40) = Inr (PFloat (FRat 40))"
    "coerce_float sample_host (PInt 70) = Inr (PFloat (FRat 70))"
    using inst h by blast+
  have l: "length (schema_keys schema_extension) = 14"
  proof -
    from inst have "schema_keys schema_extension =
     [''name'', ''unique_id'', ''min_humidity'', ''max_humidity'', ''target_humidity_template'',
      ''current_humidity_template'', ''state_template'', ''mode_template'', ''action_template'',
      ''modes'', ''set_target_humidity_action'', ''set_mode_action'', ''turn_on_action'',
      ''turn_off_action'']" by blast
    then show ?thesis by simp
  qed
  have p: "set (schema_keys (PLATFORM_SCHEMA [(Required ''platform'', CvString)])) =
     set (schema_keys [(Required ''platform'', CvString)]) \<union> set (schema_keys schema_extension)"
    using inst by blast
  have "set (schema_keys [(Required ''platform'', CvString)]) = {''platform''}"
    by (simp add: schema_keys_def)
  with p h c l show ?thesis by simp
qed

end
